theory Spec2Isabelle
  imports Complex_Main "HOL-Library.Code_Target_Numeral"
begin

section \<open>Python values, strings and exceptions\<close>

text \<open>
  A Python \<open>str\<close> is a sequence of Unicode code points and \<open>len\<close> counts code points,
  so a string is modelled as the list of its code points. \<open>lit\<close> turns an ASCII literal
  into such a list; the emoji of the source's messages are written as their code points.
  (Natural numbers are evaluated as target-language integers, so that code points
  compute quickly.)
\<close>

type_synonym pystr = "nat list"

definition lit :: "string \<Rightarrow> pystr" where
  "lit s = map of_char s"

text \<open>
  The values the program handles are what the remote client hands back (parsed JSON:
  null, booleans, numbers, strings, lists, objects with string keys) and what the caller
  passes in. A dictionary keeps its insertion order, so it is an association list;
  lookup takes the first entry of a key.
\<close>

datatype pyval =
    PyNone
  | PyBool bool
  | PyInt int
  | PyFloat rat
  | PyStr pystr
  | PyList "pyval list"
  | PyDict "(pystr \<times> pyval) list"

text \<open>
  The exceptions are instances of Python's class \<open>Exception\<close>, which is what
  \<open>except Exception\<close> catches. Those the interpreter raises itself carry the
  interpreter's message, which is not modelled; \<open>ValueError\<close> carries the message the
  source gives it; \<open>OtherException\<close> (class name, message) stands for any other class,
  such as the transport and service errors of the remote client.
\<close>

datatype pyexc =
    KeyError pyval
  | TypeError
  | AttributeError
  | IndexError
  | ValueError pystr
  | EOFError
  | OtherException pystr pystr

subsection \<open>Built-in operations\<close>

text \<open>Truth value testing, as \<open>if x\<close>, \<open>not x\<close>, \<open>x or y\<close> and \<open>x and y\<close> do it.\<close>

fun truthy :: "pyval \<Rightarrow> bool" where
  "truthy PyNone = False"
| "truthy (PyBool b) = b"
| "truthy (PyInt i) = (i \<noteq> 0)"
| "truthy (PyFloat r) = (r \<noteq> 0)"
| "truthy (PyStr s) = (s \<noteq> [])"
| "truthy (PyList xs) = (xs \<noteq> [])"
| "truthy (PyDict kvs) = (kvs \<noteq> [])"

text \<open>\<open>isinstance(x, str)\<close>.\<close>

fun isinstance_str :: "pyval \<Rightarrow> bool" where
  "isinstance_str (PyStr s) = True"
| "isinstance_str v = False"

text \<open>\<open>len(x)\<close>: a \<open>TypeError\<close> for a value without a length.\<close>

fun py_len :: "pyval \<Rightarrow> pyexc + nat" where
  "py_len (PyStr s) = Inr (length s)"
| "py_len (PyList xs) = Inr (length xs)"
| "py_len (PyDict kvs) = Inr (length kvs)"
| "py_len v = Inl TypeError"

text \<open>
  Iteration, as \<open>for\<close> and \<open>enumerate\<close> do it: the elements of a list, the
  one-character strings of a string, the keys of a dictionary; a \<open>TypeError\<close> otherwise.
\<close>

fun py_iter :: "pyval \<Rightarrow> pyexc + pyval list" where
  "py_iter (PyList xs) = Inr xs"
| "py_iter (PyStr s) = Inr (map (\<lambda>c. PyStr [c]) s)"
| "py_iter (PyDict kvs) = Inr (map (\<lambda>kv. PyStr (fst kv)) kvs)"
| "py_iter v = Inl TypeError"

text \<open>\<open>x.get(key, default)\<close>: only a dictionary has the method.\<close>

fun py_get :: "pyval \<Rightarrow> pystr \<Rightarrow> pyval \<Rightarrow> pyexc + pyval" where
  "py_get (PyDict kvs) k d = Inr (case map_of kvs k of None \<Rightarrow> d | Some v \<Rightarrow> v)"
| "py_get v k d = Inl AttributeError"

text \<open>\<open>x.keys()\<close>.\<close>

fun py_keys :: "pyval \<Rightarrow> pyexc + pystr list" where
  "py_keys (PyDict kvs) = Inr (map fst kvs)"
| "py_keys v = Inl AttributeError"

text \<open>
  \<open>x[key]\<close> with a string key: a \<open>KeyError\<close> on a dictionary without the key, a
  \<open>TypeError\<close> on every other value (a string or list wants an integer, the rest
  cannot be subscripted).
\<close>

fun py_getitem :: "pyval \<Rightarrow> pystr \<Rightarrow> pyexc + pyval" where
  "py_getitem (PyDict kvs) k =
     (case map_of kvs k of None \<Rightarrow> Inl (KeyError (PyStr k)) | Some v \<Rightarrow> Inr v)"
| "py_getitem v k = Inl TypeError"

text \<open>
  \<open>x[i]\<close> with an integer index; a negative index counts from the end. A dictionary
  has string keys only, so the integer is a missing key.
\<close>

definition nth_py :: "'a list \<Rightarrow> int \<Rightarrow> pyexc + 'a" where
  "nth_py xs i =
     (if 0 \<le> i \<and> i < int (length xs) then Inr (xs ! nat i)
      else if i < 0 \<and> - int (length xs) \<le> i then Inr (xs ! nat (int (length xs) + i))
      else Inl IndexError)"

fun py_index :: "pyval \<Rightarrow> int \<Rightarrow> pyexc + pyval" where
  "py_index (PyList xs) i = nth_py xs i"
| "py_index (PyStr s) i =
     (case nth_py s i of Inl e \<Rightarrow> Inl e | Inr c \<Rightarrow> Inr (PyStr [c]))"
| "py_index (PyDict kvs) i = Inl (KeyError (PyInt i))"
| "py_index v i = Inl TypeError"

text \<open>\<open>sep.join(xs)\<close> for a list of strings.\<close>

fun py_join :: "pystr \<Rightarrow> pystr list \<Rightarrow> pystr" where
  "py_join sep [] = []"
| "py_join sep [x] = x"
| "py_join sep (x # y # ys) = x @ sep @ py_join sep (y # ys)"

text \<open>
  \<open>s.strip()\<close> removes leading and trailing whitespace, which for a \<open>str\<close> is the set
  of code points that \<open>str.isspace\<close> accepts.
\<close>

definition isspace :: "nat \<Rightarrow> bool" where
  "isspace c \<longleftrightarrow>
     (9 \<le> c \<and> c \<le> 13) \<or> (28 \<le> c \<and> c \<le> 32) \<or> c = 133 \<or> c = 160 \<or> c = 5760 \<or>
     (8192 \<le> c \<and> c \<le> 8202) \<or> c = 8232 \<or> c = 8233 \<or> c = 8239 \<or> c = 8287 \<or> c = 12288"

definition py_strip :: "pystr \<Rightarrow> pystr" where
  "py_strip s = rev (dropWhile isspace (rev (dropWhile isspace s)))"

text \<open>
  \<open>s.split(sep)\<close> for a separator of one character: the pieces between the
  occurrences of the separator, empty pieces included; never an empty list.
\<close>

fun py_split :: "nat \<Rightarrow> pystr \<Rightarrow> pystr list" where
  "py_split sep [] = [[]]"
| "py_split sep (c # cs) =
     (if c = sep then [] # py_split sep cs
      else (case py_split sep cs of [] \<Rightarrow> [[c]] | p # ps \<Rightarrow> (c # p) # ps))"

section \<open>Effects: console, remote service, exceptions\<close>

text \<open>
  What the program does to the outside is kept as a trace of events, in the order in
  which they happen. A line printed is the list of the pieces of its text: the literal
  text of the source, a value (an f-string field, or the argument of \<open>print\<close>) that
  Python formats with \<open>str\<close>, or the text \<open>str(e)\<close> of an exception. \<open>print\<close> adds
  the newline; \<open>input\<close> writes its prompt and reads one line.
\<close>

datatype piece = Lit pystr | Val pyval | ExcStr pyexc

type_synonym line = "piece list"

text \<open>
  A call of the remote client, with the keyword arguments the source passes:
  \<open>client.search(query, max_results, search_depth, include_raw_content)\<close> and
  \<open>client.extract(urls, include_raw_content)\<close>, where an argument that the call does
  not pass is \<open>None\<close>.
\<close>

datatype request =
    SearchCall pyval pyval pystr bool
  | ExtractCall pyval "bool option"

datatype event = Print line | Prompt pystr | Read pystr | Call request

text \<open>
  The state of the world: the lines still to be read from standard input, the trace so
  far and the state of the network and of the remote service, of which nothing is known.
\<close>

record 'w world =
  stdin :: "pystr list"
  trace :: "event list"
  net :: 'w

text \<open>
  A statement takes the world and gives back the new one with either the exception it
  raised or its value.
\<close>

type_synonym ('w, 'a) prog = "'w world \<Rightarrow> (pyexc + 'a) \<times> 'w world"

definition ret :: "'a \<Rightarrow> ('w, 'a) prog" where
  "ret x w = (Inr x, w)"

definition lift :: "pyexc + 'a \<Rightarrow> ('w, 'a) prog" where
  "lift r w = (r, w)"

definition thn :: "('w, 'a) prog \<Rightarrow> ('a \<Rightarrow> ('w, 'b) prog) \<Rightarrow> ('w, 'b) prog" where
  "thn m f w = (case m w of (Inl e, w') \<Rightarrow> (Inl e, w') | (Inr x, w') \<Rightarrow> f x w')"

definition try_except :: "('w, 'a) prog \<Rightarrow> (pyexc \<Rightarrow> ('w, 'a) prog) \<Rightarrow> ('w, 'a) prog" where
  "try_except m h w = (case m w of (Inl e, w') \<Rightarrow> h e w' | (Inr x, w') \<Rightarrow> (Inr x, w'))"

definition py_print :: "line \<Rightarrow> ('w, unit) prog" where
  "py_print l w = (Inr (), w\<lparr>trace := trace w @ [Print l]\<rparr>)"

definition py_input :: "pystr \<Rightarrow> ('w, pystr) prog" where
  "py_input p w =
     (case stdin w of
        [] \<Rightarrow> (Inl EOFError, w\<lparr>trace := trace w @ [Prompt p]\<rparr>)
      | l # ls \<Rightarrow> (Inr l, w\<lparr>stdin := ls, trace := trace w @ [Prompt p, Read l]\<rparr>))"

text \<open>
  The remote client is not part of the program: \<open>remote c r n\<close> is what the client
  object \<open>c\<close> answers to the request \<open>r\<close> when the network is in state \<open>n\<close>, a
  response or an exception, with the network's next state.
\<close>

type_synonym ('c, 'w) remote = "'c \<Rightarrow> request \<Rightarrow> 'w \<Rightarrow> (pyexc + pyval) \<times> 'w"

definition call :: "('c, 'w) remote \<Rightarrow> 'c \<Rightarrow> request \<Rightarrow> ('w, pyval) prog" where
  "call remote c r w =
     (case remote c r (net w) of
        (res, n') \<Rightarrow> (res, w\<lparr>trace := trace w @ [Call r], net := n'\<rparr>))"

text \<open>\<open>for i, x in enumerate(xs, i0): body\<close>.\<close>

fun for_enumerate :: "(nat \<Rightarrow> 'a \<Rightarrow> ('w, unit) prog) \<Rightarrow> nat \<Rightarrow> 'a list \<Rightarrow> ('w, unit) prog" where
  "for_enumerate body i [] w = (Inr (), w)"
| "for_enumerate body i (x # xs) w =
     (case body i x w of
        (Inl e, w') \<Rightarrow> (Inl e, w')
      | (Inr u, w') \<Rightarrow> for_enumerate body (Suc i) xs w')"

text \<open>The remote requests of a trace, in order.\<close>

fun calls :: "event list \<Rightarrow> request list" where
  "calls [] = []"
| "calls (Call r # es) = r # calls es"
| "calls (e # es) = calls es"

section \<open>The class \<open>TavilyAgents\<close>\<close>

text \<open>An instance holds the credential and the client object built from it.\<close>

record 'c agents =
  api_key :: pyval
  client :: 'c

text \<open>\<open>os.environ.get(name)\<close>: the variable's value, or \<open>None\<close>.\<close>

type_synonym environ = "pystr \<Rightarrow> pystr option"

definition environ_get :: "environ \<Rightarrow> pystr \<Rightarrow> pyval" where
  "environ_get environ name = (case environ name of None \<Rightarrow> PyNone | Some v \<Rightarrow> PyStr v)"

text \<open>
  \<open>__init__\<close>: the argument, else the environment variable; a \<open>ValueError\<close> when
  neither is truthy. \<open>tavily_client\<close> is the constructor of the remote client's class,
  which is not part of the program and may raise.
\<close>

definition init :: "(pyval \<Rightarrow> pyexc + 'c) \<Rightarrow> environ \<Rightarrow> pyval \<Rightarrow> pyexc + 'c agents" where
  "init tavily_client environ key =
     (let k = (if truthy key then key else environ_get environ (lit ''TAVILY_API_KEY''))
      in if \<not> truthy k
         then Inl (ValueError (lit ''Please provide TAVILY_API_KEY environment variable '' @
                               lit ''or pass it to the constructor''))
         else (case tavily_client k of
                 Inl e \<Rightarrow> Inl e
               | Inr c \<Rightarrow> Inr \<lparr>api_key = k, client = c\<rparr>))"

text \<open>\<open>s * n\<close> on a string.\<close>

definition py_repeat :: "pystr \<Rightarrow> nat \<Rightarrow> pystr" where
  "py_repeat s n = concat (replicate n s)"

subsection \<open>\<open>search_agent\<close>\<close>

text \<open>The body of the loop over the results (source lines 116 to 139).\<close>

definition search_agent_result :: "nat \<Rightarrow> pyval \<Rightarrow> ('w, unit) prog" where
  "search_agent_result i result =
     thn (py_print [Lit [10], Val (PyStr (py_repeat (lit ''='') 70))]) (\<lambda>_.
     thn (py_print [Lit (lit ''Result #''), Val (PyInt (int i))]) (\<lambda>_.
     thn (py_print [Val (PyStr (py_repeat (lit ''='') 70))]) (\<lambda>_.
     thn (lift (py_getitem result (lit ''title''))) (\<lambda>title.
     thn (py_print [Lit (128204 # lit '' Title: ''), Val title]) (\<lambda>_.
     thn (lift (py_getitem result (lit ''url''))) (\<lambda>url.
     thn (py_print [Lit (128279 # lit '' URL: ''), Val url]) (\<lambda>_.
     thn (lift (py_get result (lit ''score'') (PyStr (lit ''N/A'')))) (\<lambda>score.
     thn (py_print [Lit (11088 # lit '' Relevance Score: ''), Val score]) (\<lambda>_.
     thn (lift (py_get result (lit ''raw_content'') (PyStr []))) (\<lambda>raw.
     thn (if truthy raw then ret raw
          else lift (py_get result (lit ''content'') (PyStr []))) (\<lambda>full_content.
     thn (lift (py_len full_content)) (\<lambda>content_length.
     thn (py_print [Lit (128202 # lit '' Content Length: ''), Val (PyInt (int content_length)),
                    Lit (lit '' characters'')]) (\<lambda>_.
     thn (py_print [Lit (10 # 128196 # lit '' Full Content:'')]) (\<lambda>_.
     thn (py_print [Val (PyStr (py_repeat (lit ''-'') 70))]) (\<lambda>_.
     thn (py_print [Val full_content]) (\<lambda>_.
     thn (py_print [Val (PyStr (py_repeat (lit ''-'') 70))]) (\<lambda>_.
     thn (py_print []) (\<lambda>_.
     thn (lift (py_keys result)) (\<lambda>keys.
     thn (py_print [Lit (128269 # lit '' Available data fields: ''),
                    Val (PyStr (py_join (lit '', '') keys))]) (\<lambda>_.
     py_print []))))))))))))))))))))"

definition search_agent :: "('c, 'w) remote \<Rightarrow> 'c agents \<Rightarrow> pyval \<Rightarrow> pyval \<Rightarrow> ('w, pyval) prog" where
  "search_agent remote self query max_results =
     thn (py_print [Lit (10 # 128269 # lit '' SEARCH AGENT: Searching for '' @ [39]), Val query,
                    Lit (39 # lit ''...'' @ [10])]) (\<lambda>_.
     try_except
       (thn (call remote (client self)
               (SearchCall query max_results (lit ''advanced'') True)) (\<lambda>response.
        thn (lift (py_get response (lit ''results'') (PyList []))) (\<lambda>results.
        thn (lift (py_len results)) (\<lambda>n.
        thn (py_print [Lit (lit ''Found ''), Val (PyInt (int n)),
                       Lit (lit '' results:'' @ [10])]) (\<lambda>_.
        thn (lift (py_iter results)) (\<lambda>items.
        thn (for_enumerate search_agent_result 1 items) (\<lambda>_.
        ret response)))))))
       (\<lambda>e.
        thn (py_print [Lit (10060 # lit '' Error in search: ''), ExcStr e]) (\<lambda>_.
        ret PyNone)))"

subsection \<open>\<open>extract_agent\<close>\<close>

text \<open>The body of the loop over the results (source lines 184 to 199).\<close>

definition extract_agent_result :: "nat \<Rightarrow> pyval \<Rightarrow> ('w, unit) prog" where
  "extract_agent_result i result =
     thn (py_print [Lit [10], Val (PyStr (py_repeat (lit ''='') 70))]) (\<lambda>_.
     thn (py_print [Lit (lit ''Extraction #''), Val (PyInt (int i))]) (\<lambda>_.
     thn (py_print [Val (PyStr (py_repeat (lit ''='') 70))]) (\<lambda>_.
     thn (lift (py_getitem result (lit ''url''))) (\<lambda>url.
     thn (py_print [Lit (128279 # lit '' URL: ''), Val url]) (\<lambda>_.
     thn (lift (py_get result (lit ''title'') (PyStr (lit ''N/A'')))) (\<lambda>title.
     thn (py_print [Lit (128204 # lit '' Title: ''), Val title]) (\<lambda>_.
     thn (lift (py_get result (lit ''raw_content'') (PyStr []))) (\<lambda>raw_content.
     thn (lift (py_len raw_content)) (\<lambda>n.
     thn (py_print [Lit (128202 # lit '' Content Length: ''), Val (PyInt (int n)),
                    Lit (lit '' characters'')]) (\<lambda>_.
     thn (py_print [Lit (10 # 128196 # lit '' Full Extracted Content:'')]) (\<lambda>_.
     thn (py_print [Val (PyStr (py_repeat (lit ''-'') 70))]) (\<lambda>_.
     thn (py_print [Val raw_content]) (\<lambda>_.
     thn (py_print [Val (PyStr (py_repeat (lit ''-'') 70))]) (\<lambda>_.
     py_print []))))))))))))))"

definition extract_agent :: "('c, 'w) remote \<Rightarrow> 'c agents \<Rightarrow> pyval \<Rightarrow> ('w, pyval) prog" where
  "extract_agent remote self urls0 =
     (let urls = (if isinstance_str urls0 then PyList [urls0] else urls0) in
      thn (lift (py_len urls)) (\<lambda>n.
      thn (py_print [Lit (10 # 128196 # lit '' EXTRACT AGENT: Extracting content from ''),
                     Val (PyInt (int n)), Lit (lit '' URL(s)...'' @ [10])]) (\<lambda>_.
      try_except
        (thn (call remote (client self) (ExtractCall urls None)) (\<lambda>response.
         thn (lift (py_get response (lit ''results'') (PyList []))) (\<lambda>results.
         thn (lift (py_iter results)) (\<lambda>items.
         thn (for_enumerate extract_agent_result 1 items) (\<lambda>_.
         ret response)))))
        (\<lambda>e.
         thn (py_print [Lit (10060 # lit '' Error in extraction: ''), ExcStr e]) (\<lambda>_.
         ret PyNone)))))"

subsection \<open>\<open>crawl_agent\<close>\<close>

text \<open>The display of the first result (source lines 244 to 261).\<close>

definition crawl_agent_page :: "pyval \<Rightarrow> ('w, unit) prog" where
  "crawl_agent_page response =
     thn (lift (py_getitem response (lit ''results''))) (\<lambda>results.
     thn (lift (py_index results 0)) (\<lambda>result.
     thn (py_print [Lit [10], Val (PyStr (py_repeat (lit ''='') 70))]) (\<lambda>_.
     thn (lift (py_getitem result (lit ''url''))) (\<lambda>url.
     thn (py_print [Lit (128205 # lit '' Main Page: ''), Val url]) (\<lambda>_.
     thn (py_print [Val (PyStr (py_repeat (lit ''='') 70))]) (\<lambda>_.
     thn (lift (py_get result (lit ''title'') (PyStr (lit ''N/A'')))) (\<lambda>title.
     thn (py_print [Lit (128204 # lit '' Title: ''), Val title]) (\<lambda>_.
     thn (lift (py_get result (lit ''raw_content'') (PyStr []))) (\<lambda>full_content.
     thn (lift (py_len full_content)) (\<lambda>content_length.
     thn (py_print [Lit (128202 # lit '' Content extracted: ''), Val (PyInt (int content_length)),
                    Lit (lit '' characters'')]) (\<lambda>_.
     thn (py_print [Lit (10 # 128196 # lit '' Full Crawled Content:'')]) (\<lambda>_.
     thn (py_print [Val (PyStr (py_repeat (lit ''-'') 70))]) (\<lambda>_.
     thn (py_print [Val full_content]) (\<lambda>_.
     py_print [Val (PyStr (py_repeat (lit ''-'') 70))]))))))))))))))"

definition crawl_agent :: "('c, 'w) remote \<Rightarrow> 'c agents \<Rightarrow> pyval \<Rightarrow> pyval \<Rightarrow> ('w, pyval) prog" where
  "crawl_agent remote self url max_depth =
     thn (py_print [Lit ([10, 128375, 65039] @ lit '' CRAWL AGENT: Crawling '' @ [39]), Val url,
                    Lit (39 # lit '' (depth: ''), Val max_depth, Lit (lit '')...'' @ [10])]) (\<lambda>_.
     try_except
       (thn (call remote (client self) (ExtractCall (PyList [url]) (Some True))) (\<lambda>response.
        thn (if truthy response
             then thn (lift (py_get response (lit ''results'') PyNone)) (\<lambda>r. ret (truthy r))
             else ret False) (\<lambda>present.
        thn (if present then crawl_agent_page response else ret ()) (\<lambda>_.
        ret response))))
       (\<lambda>e.
        thn (py_print [Lit (10060 # lit '' Error in crawling: ''), ExcStr e]) (\<lambda>_.
        ret PyNone)))"

section \<open>The interactive shell\<close>

text \<open>How one pass through the body of \<open>while True\<close> ends.\<close>

datatype flow = Continue | Break

text \<open>The menu (source lines 325 to 331).\<close>

definition print_menu :: "('w, unit) prog" where
  "print_menu =
     thn (py_print [Val (PyStr ([10] @ py_repeat (lit ''='') 60))]) (\<lambda>_.
     thn (py_print [Lit (lit ''Select an agent:'')]) (\<lambda>_.
     thn (py_print [Lit (lit ''1. '' @ [128269] @ lit '' Search Agent - Search the web'')]) (\<lambda>_.
     thn (py_print [Lit (lit ''2. '' @ [128196] @
                         lit '' Extract Agent - Extract content from URL(s)'')]) (\<lambda>_.
     thn (py_print [Lit (lit ''3. '' @ [128375, 65039] @
                         lit '' Crawl Agent - Crawl a website'')]) (\<lambda>_.
     thn (py_print [Lit (lit ''4. '' @ [128682] @ lit '' Exit'')]) (\<lambda>_.
     py_print [Val (PyStr (py_repeat (lit ''='') 60))]))))))"

text \<open>
  The \<open>if\<close>/\<open>elif\<close> chain on the trimmed choice (source lines 337 to 371). The agents'
  return values are dropped; \<open>max_results\<close> and \<open>max_depth\<close> take their defaults 5
  and 2. \<open>Break\<close> is the \<open>break\<close> of choice 4.
\<close>

definition dispatch :: "('c, 'w) remote \<Rightarrow> 'c agents \<Rightarrow> pystr \<Rightarrow> ('w, flow) prog" where
  "dispatch remote agents choice =
     (if choice = lit ''1'' then
        thn (py_input (10 # lit ''Enter search query: '')) (\<lambda>l.
        (let query = py_strip l in
         if query \<noteq> [] then
           thn (search_agent remote agents (PyStr query) (PyInt 5)) (\<lambda>_. ret Continue)
         else
           thn (py_print [Lit (10060 # lit '' Search query cannot be empty!'')]) (\<lambda>_.
           ret Continue)))
      else if choice = lit ''2'' then
        thn (py_input (10 # lit ''Enter URL(s) (comma-separated for multiple): '')) (\<lambda>l.
        (let url_input = py_strip l in
         if url_input \<noteq> [] then
           (let urls = map py_strip (py_split 44 url_input) in
            thn (extract_agent remote agents (PyList (map PyStr urls))) (\<lambda>_. ret Continue))
         else
           thn (py_print [Lit (10060 # lit '' URL cannot be empty!'')]) (\<lambda>_.
           ret Continue)))
      else if choice = lit ''3'' then
        thn (py_input (10 # lit ''Enter URL to crawl: '')) (\<lambda>l.
        (let url = py_strip l in
         if url \<noteq> [] then
           thn (crawl_agent remote agents (PyStr url) (PyInt 2)) (\<lambda>_. ret Continue)
         else
           thn (py_print [Lit (10060 # lit '' URL cannot be empty!'')]) (\<lambda>_.
           ret Continue)))
      else if choice = lit ''4'' then
        thn (py_print [Lit (10 # 128075 # lit '' Goodbye!'')]) (\<lambda>_. ret Break)
      else
        thn (py_print [Lit (10 # 10060 # lit '' Invalid choice. Please select 1-4.'')]) (\<lambda>_.
        ret Continue))"

text \<open>
  One pass (source lines 325 to 375): the menu, the choice, its action and, unless the
  action left the loop, the acknowledgment line.
\<close>

definition main_loop_body :: "('c, 'w) remote \<Rightarrow> 'c agents \<Rightarrow> ('w, flow) prog" where
  "main_loop_body remote agents =
     thn print_menu (\<lambda>_.
     thn (py_input (10 # lit ''Enter your choice (1-4): '')) (\<lambda>l.
     (let choice = py_strip l in
      thn (dispatch remote agents choice) (\<lambda>f.
      case f of
        Break \<Rightarrow> ret Break
      | Continue \<Rightarrow>
          thn (py_input (10 # lit ''Press Enter to continue...'')) (\<lambda>_. ret Continue)))))"

text \<open>
  \<open>while True\<close> (source lines 323 to 375) repeats the pass until it breaks or raises.
  Standard input is a finite list of lines, and a pass that continues has read at least
  two of them, so the loop always ends: when the input runs out, \<open>input\<close> raises
  \<open>EOFError\<close>, which nothing catches. The lines of \<open>main\<close> before the loop (286 to
  320) print a banner and build \<open>agents\<close> with \<open>init\<close>; the loop starts from an
  instance so built.
\<close>

function main_loop :: "('c, 'w) remote \<Rightarrow> 'c agents \<Rightarrow> ('w, unit) prog" where
  "main_loop remote agents w =
     (case main_loop_body remote agents w of
        (Inl e, w') \<Rightarrow> (Inl e, w')
      | (Inr Break, w') \<Rightarrow> (Inr (), w')
      | (Inr Continue, w') \<Rightarrow> main_loop remote agents w')"
  by pat_completeness auto

section \<open>Observations\<close>

text \<open>The header lines of the three agents (source lines 92, 176 and 230).\<close>

definition search_header :: "pyval \<Rightarrow> line" where
  "search_header query =
     [Lit (10 # 128269 # lit '' SEARCH AGENT: Searching for '' @ [39]), Val query,
      Lit (39 # lit ''...'' @ [10])]"

definition extract_header :: "nat \<Rightarrow> line" where
  "extract_header n =
     [Lit (10 # 128196 # lit '' EXTRACT AGENT: Extracting content from ''),
      Val (PyInt (int n)), Lit (lit '' URL(s)...'' @ [10])]"

definition crawl_header :: "pyval \<Rightarrow> pyval \<Rightarrow> line" where
  "crawl_header url max_depth =
     [Lit ([10, 128375, 65039] @ lit '' CRAWL AGENT: Crawling '' @ [39]), Val url,
      Lit (39 # lit '' (depth: ''), Val max_depth, Lit (lit '')...'' @ [10])]"

text \<open>
  The lines that one pass of the loop of \<open>search_agent\<close> prints when nothing raises
  (source lines 116 to 139), from the title, the URL, the score, the content chosen, its
  length and the keys of the record.
\<close>

definition search_agent_display ::
  "nat \<Rightarrow> pyval \<Rightarrow> pyval \<Rightarrow> pyval \<Rightarrow> pyval \<Rightarrow> nat \<Rightarrow> pystr list \<Rightarrow> line list" where
  "search_agent_display i title url score full_content content_length keys =
     [[Lit [10], Val (PyStr (py_repeat (lit ''='') 70))],
      [Lit (lit ''Result #''), Val (PyInt (int i))],
      [Val (PyStr (py_repeat (lit ''='') 70))],
      [Lit (128204 # lit '' Title: ''), Val title],
      [Lit (128279 # lit '' URL: ''), Val url],
      [Lit (11088 # lit '' Relevance Score: ''), Val score],
      [Lit (128202 # lit '' Content Length: ''), Val (PyInt (int content_length)),
       Lit (lit '' characters'')],
      [Lit (10 # 128196 # lit '' Full Content:'')],
      [Val (PyStr (py_repeat (lit ''-'') 70))],
      [Val full_content],
      [Val (PyStr (py_repeat (lit ''-'') 70))],
      [],
      [Lit (128269 # lit '' Available data fields: ''), Val (PyStr (py_join (lit '', '') keys))],
      []]"


text \<open>The lines of the menu, as \<open>print_menu\<close> prints them.\<close>

definition menu_lines :: "line list" where
  "menu_lines =
     [[Val (PyStr ([10] @ py_repeat (lit ''='') 60))],
      [Lit (lit ''Select an agent:'')],
      [Lit (lit ''1. '' @ [128269] @ lit '' Search Agent - Search the web'')],
      [Lit (lit ''2. '' @ [128196] @ lit '' Extract Agent - Extract content from URL(s)'')],
      [Lit (lit ''3. '' @ [128375, 65039] @ lit '' Crawl Agent - Crawl a website'')],
      [Lit (lit ''4. '' @ [128682] @ lit '' Exit'')],
      [Val (PyStr (py_repeat (lit ''='') 60))]]"

text \<open>
  A statement only prints when, from any world, it appends printed lines to the trace and
  changes nothing else, and when its result and the lines do not depend on the trace.
\<close>

definition prints_only :: "('w, 'a) prog \<Rightarrow> bool" where
  "prints_only m \<longleftrightarrow>
     (\<forall>w. \<exists>r ls. \<forall>t. m (w\<lparr>trace := t\<rparr>) = (r, w\<lparr>trace := t @ map Print ls\<rparr>))"

text \<open>A statement consumes input when it leaves a suffix of the lines it found.\<close>

definition consumes :: "('w, 'a) prog \<Rightarrow> bool" where
  "consumes m \<longleftrightarrow> (\<forall>w. \<exists>k. stdin (snd (m w)) = drop k (stdin w))"

section \<open>Basic facts\<close>

subsection \<open>Sequencing and the trace\<close>

lemma thn_ret: "thn (ret x) f = f x"
  by (rule ext) (simp add: thn_def ret_def)

lemma thn_lift_Inr: "thn (lift (Inr x)) f = f x"
  by (rule ext) (simp add: thn_def lift_def)

lemma thn_lift_Inl: "thn (lift (Inl e)) f w = (Inl e, w)"
  by (simp add: thn_def lift_def)

lemma thn_print: "thn (py_print l) f w = f () (w\<lparr>trace := trace w @ [Print l]\<rparr>)"
  by (simp add: thn_def py_print_def)

lemma calls_append: "calls (xs @ ys) = calls xs @ calls ys"
  by (induction xs rule: calls.induct) simp_all

lemma calls_Print: "calls (map Print ls) = []"
  by (induction ls) simp_all

subsection \<open>Statements that only print\<close>

lemma prints_onlyI:
  "(\<And>w. \<exists>r ls. \<forall>t. m (w\<lparr>trace := t\<rparr>) = (r, w\<lparr>trace := t @ map Print ls\<rparr>)) \<Longrightarrow>
   prints_only m"
  by (simp add: prints_only_def)

lemma prints_onlyD:
  "prints_only m \<Longrightarrow> \<exists>r ls. \<forall>t. m (w\<lparr>trace := t\<rparr>) = (r, w\<lparr>trace := t @ map Print ls\<rparr>)"
  by (simp add: prints_only_def)

lemma prints_only_ret: "prints_only (ret x)"
proof (rule prints_onlyI)
  fix w :: "'a world"
  have "\<forall>t. ret x (w\<lparr>trace := t\<rparr>) = (Inr x, w\<lparr>trace := t @ map Print []\<rparr>)"
    by (simp add: ret_def)
  then show "\<exists>r ls. \<forall>t. ret x (w\<lparr>trace := t\<rparr>) = (r, w\<lparr>trace := t @ map Print ls\<rparr>)"
    by blast
qed

lemma prints_only_lift: "prints_only (lift r)"
proof (rule prints_onlyI)
  fix w :: "'a world"
  have "\<forall>t. lift r (w\<lparr>trace := t\<rparr>) = (r, w\<lparr>trace := t @ map Print []\<rparr>)"
    by (simp add: lift_def)
  then show "\<exists>r' ls. \<forall>t. lift r (w\<lparr>trace := t\<rparr>) = (r', w\<lparr>trace := t @ map Print ls\<rparr>)"
    by blast
qed

lemma prints_only_print: "prints_only (py_print l)"
proof (rule prints_onlyI)
  fix w :: "'a world"
  have "\<forall>t. py_print l (w\<lparr>trace := t\<rparr>) = (Inr (), w\<lparr>trace := t @ map Print [l]\<rparr>)"
    by (simp add: py_print_def)
  then show "\<exists>r ls. \<forall>t. py_print l (w\<lparr>trace := t\<rparr>) = (r, w\<lparr>trace := t @ map Print ls\<rparr>)"
    by blast
qed

lemma prints_only_thn:
  assumes "prints_only m" and "\<And>x. prints_only (f x)"
  shows "prints_only (thn m f)"
proof (rule prints_onlyI)
  fix w
  from prints_onlyD [OF assms(1), of w]
  obtain r ls where m: "\<And>t. m (w\<lparr>trace := t\<rparr>) = (r, w\<lparr>trace := t @ map Print ls\<rparr>)"
    by blast
  show "\<exists>r ls. \<forall>t. thn m f (w\<lparr>trace := t\<rparr>) = (r, w\<lparr>trace := t @ map Print ls\<rparr>)"
  proof (cases r)
    case (Inl e)
    with m have "\<forall>t. thn m f (w\<lparr>trace := t\<rparr>) = (Inl e, w\<lparr>trace := t @ map Print ls\<rparr>)"
      by (simp add: thn_def)
    then show ?thesis by blast
  next
    case (Inr x)
    from prints_onlyD [OF assms(2), of x w]
    obtain r' ls' where f: "\<And>t. f x (w\<lparr>trace := t\<rparr>) = (r', w\<lparr>trace := t @ map Print ls'\<rparr>)"
      by blast
    have "\<forall>t. thn m f (w\<lparr>trace := t\<rparr>) = (r', w\<lparr>trace := t @ map Print (ls @ ls')\<rparr>)"
      using m Inr f [of "t @ map Print ls" for t] by (simp add: thn_def)
    then show ?thesis by blast
  qed
qed

lemma prints_only_try:
  assumes "prints_only m" and "\<And>e. prints_only (h e)"
  shows "prints_only (try_except m h)"
proof (rule prints_onlyI)
  fix w
  from prints_onlyD [OF assms(1), of w]
  obtain r ls where m: "\<And>t. m (w\<lparr>trace := t\<rparr>) = (r, w\<lparr>trace := t @ map Print ls\<rparr>)"
    by blast
  show "\<exists>r ls. \<forall>t. try_except m h (w\<lparr>trace := t\<rparr>) = (r, w\<lparr>trace := t @ map Print ls\<rparr>)"
  proof (cases r)
    case (Inr x)
    with m have "\<forall>t. try_except m h (w\<lparr>trace := t\<rparr>) = (Inr x, w\<lparr>trace := t @ map Print ls\<rparr>)"
      by (simp add: try_except_def)
    then show ?thesis by blast
  next
    case (Inl e)
    from prints_onlyD [OF assms(2), of e w]
    obtain r' ls' where h: "\<And>t. h e (w\<lparr>trace := t\<rparr>) = (r', w\<lparr>trace := t @ map Print ls'\<rparr>)"
      by blast
    have "\<forall>t. try_except m h (w\<lparr>trace := t\<rparr>) = (r', w\<lparr>trace := t @ map Print (ls @ ls')\<rparr>)"
      using m Inl h [of "t @ map Print ls" for t] by (simp add: try_except_def)
    then show ?thesis by blast
  qed
qed

lemma prints_only_if:
  "prints_only a \<Longrightarrow> prints_only b \<Longrightarrow> prints_only (if c then a else b)"
  by simp

lemma prints_only_for:
  assumes "\<And>i x. prints_only (body i x)"
  shows "prints_only (for_enumerate body i xs)"
proof (rule prints_onlyI)
  fix w
  show "\<exists>r ls. \<forall>t. for_enumerate body i xs (w\<lparr>trace := t\<rparr>) =
          (r, w\<lparr>trace := t @ map Print ls\<rparr>)"
  proof (induction xs arbitrary: i)
    case Nil
    have "\<forall>t. for_enumerate body i [] (w\<lparr>trace := t\<rparr>) = (Inr (), w\<lparr>trace := t @ map Print []\<rparr>)"
      by simp
    then show ?case by blast
  next
    case (Cons x xs)
    from prints_onlyD [OF assms, of i x w]
    obtain r ls where b: "\<And>t. body i x (w\<lparr>trace := t\<rparr>) = (r, w\<lparr>trace := t @ map Print ls\<rparr>)"
      by blast
    show ?case
    proof (cases r)
      case (Inl e)
      with b have "\<forall>t. for_enumerate body i (x # xs) (w\<lparr>trace := t\<rparr>) =
          (Inl e, w\<lparr>trace := t @ map Print ls\<rparr>)"
        by simp
      then show ?thesis by blast
    next
      case (Inr u)
      from Cons.IH [of "Suc i"]
      obtain r' ls' where rest: "\<And>t. for_enumerate body (Suc i) xs (w\<lparr>trace := t\<rparr>) =
          (r', w\<lparr>trace := t @ map Print ls'\<rparr>)"
        by blast
      have "\<forall>t. for_enumerate body i (x # xs) (w\<lparr>trace := t\<rparr>) =
          (r', w\<lparr>trace := t @ map Print (ls @ ls')\<rparr>)"
        using b Inr rest [of "t @ map Print ls" for t] by simp
      then show ?thesis by blast
    qed
  qed
qed

lemmas prints_only_intros =
  prints_only_thn prints_only_try prints_only_for prints_only_if
  prints_only_print prints_only_lift prints_only_ret

lemma prints_only_search_result: "prints_only (search_agent_result i result)"
  unfolding search_agent_result_def by (intro prints_only_intros)

lemma prints_only_extract_result: "prints_only (extract_agent_result i result)"
  unfolding extract_agent_result_def by (intro prints_only_intros)

lemma prints_only_crawl_page: "prints_only (crawl_agent_page response)"
  unfolding crawl_agent_page_def by (intro prints_only_intros)

subsection \<open>What an agent method does to the world\<close>

text \<open>
  Each agent prints its header, calls the remote client once inside \<open>try\<close> and then
  only prints; the handler turns every exception of the \<open>try\<close> block into the value
  \<open>None\<close>.
\<close>

lemma world_swap: "w\<lparr>net := n, trace := t\<rparr> = w\<lparr>trace := t, net := n\<rparr>"
  by simp

lemma try_call:
  "try_except (thn (call remote c r) F) H w =
     (case remote c r (net w) of
        (Inl e, n') \<Rightarrow> H e (w\<lparr>trace := trace w @ [Call r], net := n'\<rparr>)
      | (Inr v, n') \<Rightarrow> try_except (F v) H (w\<lparr>trace := trace w @ [Call r], net := n'\<rparr>))"
  by (simp add: try_except_def thn_def call_def split: prod.splits sum.splits)

lemma try_handler_returns:
  assumes "\<And>e w. \<exists>v. fst (h e w) = Inr v"
  shows "\<exists>v. fst (try_except m h w) = Inr v"
proof -
  obtain r w1 where m: "m w = (r, w1)" by (cases "m w")
  show ?thesis
  proof (cases r)
    case (Inl e)
    with m assms [of e w1] show ?thesis by (simp add: try_except_def)
  next
    case (Inr x)
    with m show ?thesis by (simp add: try_except_def)
  qed
qed

lemma guarded_body:
  assumes "prints_only m"
  shows "\<exists>v ls. \<forall>t. try_except m (\<lambda>e. thn (py_print (l e)) (\<lambda>_. ret PyNone)) (w\<lparr>trace := t\<rparr>) =
           (Inr v, w\<lparr>trace := t @ map Print ls\<rparr>)"
proof -
  let ?p = "try_except m (\<lambda>e. thn (py_print (l e)) (\<lambda>_. ret PyNone))"
  have "prints_only ?p"
    by (intro prints_only_intros assms)
  then obtain r ls where p: "\<And>t. ?p (w\<lparr>trace := t\<rparr>) = (r, w\<lparr>trace := t @ map Print ls\<rparr>)"
    using prints_onlyD by blast
  have "\<exists>v. fst (?p (w\<lparr>trace := []\<rparr>)) = Inr v"
    by (rule try_handler_returns) (simp add: thn_print ret_def)
  with p [of "[]"] obtain v where "r = Inr v" by auto
  with p show ?thesis by blast
qed

lemma agent_frame_param:
  assumes "\<And>v. prints_only (F v)"
  shows "\<exists>v ls. \<forall>t d.
           thn (py_print (hdr d)) (\<lambda>_. try_except (thn (call remote c r) F)
             (\<lambda>e. thn (py_print (l e)) (\<lambda>_. ret PyNone))) (w\<lparr>trace := t\<rparr>) =
           (Inr v, w\<lparr>trace := t @ Print (hdr d) # Call r # map Print ls,
                       net := snd (remote c r (net w))\<rparr>)"
proof -
  obtain res n' where rem: "remote c r (net w) = (res, n')"
    by (cases "remote c r (net w)")
  show ?thesis
  proof (cases res)
    case (Inl e)
    with rem have "\<forall>t d.
           thn (py_print (hdr d)) (\<lambda>_. try_except (thn (call remote c r) F)
             (\<lambda>e. thn (py_print (l e)) (\<lambda>_. ret PyNone))) (w\<lparr>trace := t\<rparr>) =
           (Inr PyNone, w\<lparr>trace := t @ Print (hdr d) # Call r # map Print [l e],
                       net := snd (remote c r (net w))\<rparr>)"
      by (simp add: thn_print try_call ret_def)
    then show ?thesis by blast
  next
    case (Inr resp)
    from guarded_body [OF assms, of resp l "w\<lparr>net := n'\<rparr>"]
    obtain v ls where "\<And>t. try_except (F resp) (\<lambda>e. thn (py_print (l e)) (\<lambda>_. ret PyNone))
         (w\<lparr>net := n', trace := t\<rparr>) = (Inr v, w\<lparr>net := n', trace := t @ map Print ls\<rparr>)"
      by auto
    then have g: "\<And>t. try_except (F resp) (\<lambda>e. thn (py_print (l e)) (\<lambda>_. ret PyNone))
         (w\<lparr>trace := t, net := n'\<rparr>) = (Inr v, w\<lparr>trace := t @ map Print ls, net := n'\<rparr>)"
      by (simp add: world_swap)
    have "\<forall>t d.
           thn (py_print (hdr d)) (\<lambda>_. try_except (thn (call remote c r) F)
             (\<lambda>e. thn (py_print (l e)) (\<lambda>_. ret PyNone))) (w\<lparr>trace := t\<rparr>) =
           (Inr v, w\<lparr>trace := t @ Print (hdr d) # Call r # map Print ls,
                       net := snd (remote c r (net w))\<rparr>)"
      using rem Inr g by (simp add: thn_print try_call)
    then show ?thesis by blast
  qed
qed

lemma agent_frame:
  assumes "\<And>v. prints_only (F v)"
  shows "\<exists>v ls. \<forall>t.
           thn (py_print hdr) (\<lambda>_. try_except (thn (call remote c r) F)
             (\<lambda>e. thn (py_print (l e)) (\<lambda>_. ret PyNone))) (w\<lparr>trace := t\<rparr>) =
           (Inr v, w\<lparr>trace := t @ Print hdr # Call r # map Print ls,
                       net := snd (remote c r (net w))\<rparr>)"
  using agent_frame_param [of F "\<lambda>_::unit. hdr" remote c r l w, OF assms] by auto

lemma search_agent_frame:
  "\<exists>v ls. \<forall>t. search_agent remote self q m (w\<lparr>trace := t\<rparr>) =
     (Inr v, w\<lparr>trace := t @ Print (search_header q) #
        Call (SearchCall q m (lit ''advanced'') True) # map Print ls,
        net := snd (remote (client self) (SearchCall q m (lit ''advanced'') True) (net w))\<rparr>)"
  unfolding search_agent_def search_header_def
  by (rule agent_frame) (intro prints_only_intros prints_only_search_result)

lemma crawl_agent_frame:
  "\<exists>v ls. \<forall>t d. crawl_agent remote self url d (w\<lparr>trace := t\<rparr>) =
     (Inr v, w\<lparr>trace := t @ Print (crawl_header url d) #
        Call (ExtractCall (PyList [url]) (Some True)) # map Print ls,
        net := snd (remote (client self) (ExtractCall (PyList [url]) (Some True)) (net w))\<rparr>)"
  unfolding crawl_agent_def crawl_header_def
  by (rule agent_frame_param) (intro prints_only_intros prints_only_crawl_page)

lemma extract_agent_frame:
  assumes "py_len (if isinstance_str urls then PyList [urls] else urls) = Inr n"
  shows "\<exists>v ls. \<forall>t. extract_agent remote self urls (w\<lparr>trace := t\<rparr>) =
     (Inr v, w\<lparr>trace := t @ Print (extract_header n) #
        Call (ExtractCall (if isinstance_str urls then PyList [urls] else urls) None) #
        map Print ls,
        net := snd (remote (client self)
                 (ExtractCall (if isinstance_str urls then PyList [urls] else urls) None)
                 (net w))\<rparr>)"
  unfolding extract_agent_def Let_def assms thn_lift_Inr extract_header_def
  by (rule agent_frame) (intro prints_only_intros prints_only_extract_result)

lemma search_agent_run:
  "\<exists>v ls. search_agent remote self q m w =
     (Inr v, w\<lparr>trace := trace w @ Print (search_header q) #
        Call (SearchCall q m (lit ''advanced'') True) # map Print ls,
        net := snd (remote (client self) (SearchCall q m (lit ''advanced'') True) (net w))\<rparr>)"
proof -
  from search_agent_frame [of remote self q m w]
  obtain v ls where "\<And>t. search_agent remote self q m (w\<lparr>trace := t\<rparr>) =
     (Inr v, w\<lparr>trace := t @ Print (search_header q) #
        Call (SearchCall q m (lit ''advanced'') True) # map Print ls,
        net := snd (remote (client self) (SearchCall q m (lit ''advanced'') True) (net w))\<rparr>)"
    by blast
  from this [of "trace w"] show ?thesis by auto
qed

lemma crawl_agent_run:
  "\<exists>v ls. crawl_agent remote self url d w =
     (Inr v, w\<lparr>trace := trace w @ Print (crawl_header url d) #
        Call (ExtractCall (PyList [url]) (Some True)) # map Print ls,
        net := snd (remote (client self) (ExtractCall (PyList [url]) (Some True)) (net w))\<rparr>)"
proof -
  from crawl_agent_frame [of remote self url w]
  obtain v ls where "\<And>t d. crawl_agent remote self url d (w\<lparr>trace := t\<rparr>) =
     (Inr v, w\<lparr>trace := t @ Print (crawl_header url d) #
        Call (ExtractCall (PyList [url]) (Some True)) # map Print ls,
        net := snd (remote (client self) (ExtractCall (PyList [url]) (Some True)) (net w))\<rparr>)"
    by blast
  from this [of d "trace w"] show ?thesis by auto
qed

lemma extract_agent_run:
  "\<exists>v ls. extract_agent remote self (PyList us) w =
     (Inr v, w\<lparr>trace := trace w @ Print (extract_header (length us)) #
        Call (ExtractCall (PyList us) None) # map Print ls,
        net := snd (remote (client self) (ExtractCall (PyList us) None) (net w))\<rparr>)"
proof -
  from extract_agent_frame [of "PyList us" "length us" remote self w]
  obtain v ls where "\<And>t. extract_agent remote self (PyList us) (w\<lparr>trace := t\<rparr>) =
     (Inr v, w\<lparr>trace := t @ Print (extract_header (length us)) #
        Call (ExtractCall (PyList us) None) # map Print ls,
        net := snd (remote (client self) (ExtractCall (PyList us) None) (net w))\<rparr>)"
    by auto
  from this [of "trace w"] show ?thesis by auto
qed

subsection \<open>The shell's pass\<close>

lemma print_menu_eq:
  "print_menu w = (Inr (), w\<lparr>trace := trace w @ map Print menu_lines\<rparr>)"
  by (simp add: print_menu_def menu_lines_def thn_print py_print_def)

lemma consumesI: "(\<And>w. \<exists>k. stdin (snd (m w)) = drop k (stdin w)) \<Longrightarrow> consumes m"
  by (simp add: consumes_def)

lemma consumesD: "consumes m \<Longrightarrow> \<exists>k. stdin (snd (m w)) = drop k (stdin w)"
  by (simp add: consumes_def)

lemma consumes_same: "(\<And>w. stdin (snd (m w)) = stdin w) \<Longrightarrow> consumes m"
  by (rule consumesI) (rule exI [of _ 0], simp)

lemma consumes_ret: "consumes (ret x)"
  by (rule consumes_same) (simp add: ret_def)

lemma consumes_print: "consumes (py_print l)"
  by (rule consumes_same) (simp add: py_print_def)

lemma consumes_input: "consumes (py_input p :: ('w, pystr) prog)"
proof (rule consumesI)
  fix w :: "'w world"
  show "\<exists>k. stdin (snd (py_input p w)) = drop k (stdin w)"
  proof (cases "stdin w")
    case Nil
    then show ?thesis by (simp add: py_input_def)
  next
    case (Cons l ls)
    then have "stdin (snd (py_input p w)) = drop 1 (stdin w)" by (simp add: py_input_def)
    then show ?thesis by blast
  qed
qed

lemma consumes_thn:
  assumes "consumes m" and "\<And>x. consumes (f x)"
  shows "consumes (thn m f)"
proof (rule consumesI)
  fix w
  obtain r w1 where m: "m w = (r, w1)" by (cases "m w")
  from consumesD [OF assms(1), of w] m
  obtain k where w1: "stdin w1 = drop k (stdin w)" by auto
  show "\<exists>k. stdin (snd (thn m f w)) = drop k (stdin w)"
  proof (cases r)
    case (Inl e)
    with m w1 show ?thesis by (auto simp: thn_def)
  next
    case (Inr x)
    from consumesD [OF assms(2), of x w1]
    obtain k' where "stdin (snd (f x w1)) = drop k' (stdin w1)" by auto
    with m w1 Inr have "stdin (snd (thn m f w)) = drop (k' + k) (stdin w)"
      by (simp add: thn_def)
    then show ?thesis by blast
  qed
qed

lemma consumes_search: "consumes (search_agent remote self q m :: ('w, pyval) prog)"
proof (rule consumes_same)
  fix w :: "'w world"
  from search_agent_run [of remote self q m w]
  show "stdin (snd (search_agent remote self q m w)) = stdin w" by auto
qed

lemma consumes_crawl: "consumes (crawl_agent remote self u d :: ('w, pyval) prog)"
proof (rule consumes_same)
  fix w :: "'w world"
  from crawl_agent_run [of remote self u d w]
  show "stdin (snd (crawl_agent remote self u d w)) = stdin w" by auto
qed

lemma consumes_extract: "consumes (extract_agent remote self (PyList us) :: ('w, pyval) prog)"
proof (rule consumes_same)
  fix w :: "'w world"
  from extract_agent_run [of remote self us w]
  show "stdin (snd (extract_agent remote self (PyList us) w)) = stdin w" by auto
qed

lemmas consumes_intros =
  consumes_thn consumes_ret consumes_print consumes_input
  consumes_search consumes_crawl consumes_extract

lemma consumes_dispatch: "consumes (dispatch remote agents c)"
  unfolding dispatch_def Let_def
  by (intro consumes_intros if_split [where P = consumes, THEN iffD2] conjI impI)

lemma main_loop_body_unfold:
  "main_loop_body remote agents w =
     (case stdin w of
        [] \<Rightarrow> (Inl EOFError,
               w\<lparr>trace := trace w @ map Print menu_lines @
                  [Prompt (10 # lit ''Enter your choice (1-4): '')]\<rparr>)
      | l # ls \<Rightarrow>
          (case dispatch remote agents (py_strip l)
                  (w\<lparr>stdin := ls, trace := trace w @ map Print menu_lines @
                      [Prompt (10 # lit ''Enter your choice (1-4): ''), Read l]\<rparr>) of
             (Inl e, w2) \<Rightarrow> (Inl e, w2)
           | (Inr Break, w2) \<Rightarrow> (Inr Break, w2)
           | (Inr Continue, w2) \<Rightarrow>
               (case stdin w2 of
                  [] \<Rightarrow> (Inl EOFError,
                         w2\<lparr>trace := trace w2 @
                            [Prompt (10 # lit ''Press Enter to continue...'')]\<rparr>)
                | a # rest \<Rightarrow>
                    (Inr Continue,
                     w2\<lparr>stdin := rest, trace := trace w2 @
                        [Prompt (10 # lit ''Press Enter to continue...''), Read a]\<rparr>))))"
  by (simp add: main_loop_body_def thn_def print_menu_eq py_input_def ret_def Let_def
           split: list.splits prod.splits sum.splits flow.splits)

lemma main_loop_body_decreases:
  assumes "main_loop_body remote agents w = (Inr Continue, w')"
  shows "length (stdin w') < length (stdin w)"
proof (cases "stdin w")
  case Nil
  with assms show ?thesis by (simp add: main_loop_body_unfold)
next
  case (Cons l ls)
  let ?w1 = "w\<lparr>stdin := ls, trace := trace w @ map Print menu_lines @
                      [Prompt (10 # lit ''Enter your choice (1-4): ''), Read l]\<rparr>"
  obtain r w2 where d: "dispatch remote agents (py_strip l) ?w1 = (r, w2)"
    by (cases "dispatch remote agents (py_strip l) ?w1")
  from consumesD [OF consumes_dispatch, of remote agents "py_strip l" ?w1] d
  obtain k where k: "stdin w2 = drop k ls" by auto
  from assms Cons d obtain a rest where "stdin w2 = a # rest" "stdin w' = rest"
    by (auto simp: main_loop_body_unfold split: sum.splits flow.splits list.splits)
  with k have "length (stdin w') < length ls"
    by (metis length_drop diff_le_self le_imp_less_Suc length_Cons not_less_eq_eq not_less)
  with Cons show ?thesis by simp
qed

text \<open>Every pass that continues has consumed input, so the loop terminates.\<close>

termination main_loop
  by (relation "measure (\<lambda>(remote, agents, w). length (stdin w))")
     (auto intro: main_loop_body_decreases [OF sym])

declare main_loop.simps [simp del]

subsection \<open>The choices of the shell\<close>

lemma choices_distinct:
  "lit ''1'' \<noteq> lit ''2''" "lit ''1'' \<noteq> lit ''3''" "lit ''1'' \<noteq> lit ''4''"
  "lit ''2'' \<noteq> lit ''3''" "lit ''2'' \<noteq> lit ''4''" "lit ''3'' \<noteq> lit ''4''"
  "lit ''2'' \<noteq> lit ''1''" "lit ''3'' \<noteq> lit ''1''" "lit ''4'' \<noteq> lit ''1''"
  "lit ''3'' \<noteq> lit ''2''" "lit ''4'' \<noteq> lit ''2''" "lit ''4'' \<noteq> lit ''3''"
  by (simp_all add: lit_def)

lemma dispatch_exit:
  "dispatch remote agents (lit ''4'') w =
     (Inr Break, w\<lparr>trace := trace w @ [Print [Lit (10 # 128075 # lit '' Goodbye!'')]]\<rparr>)"
  by (simp add: dispatch_def choices_distinct thn_print ret_def)

lemma dispatch_extract:
  assumes "stdin w = l # ls" and "py_strip l \<noteq> []"
  shows "\<exists>v ps. dispatch remote agents (lit ''2'') w =
     (Inr Continue,
      w\<lparr>stdin := ls,
        trace := trace w @
          [Prompt (10 # lit ''Enter URL(s) (comma-separated for multiple): ''), Read l,
           Print (extract_header (length (py_split 44 (py_strip l)))),
           Call (ExtractCall
             (PyList (map PyStr (map py_strip (py_split 44 (py_strip l))))) None)] @
          map Print ps,
        net := snd (remote (client agents)
          (ExtractCall (PyList (map PyStr (map py_strip (py_split 44 (py_strip l))))) None)
          (net w))\<rparr>)"
proof -
  let ?w1 = "w\<lparr>stdin := ls, trace := trace w @
     [Prompt (10 # lit ''Enter URL(s) (comma-separated for multiple): ''), Read l]\<rparr>"
  from extract_agent_run [of remote agents "map PyStr (map py_strip (py_split 44 (py_strip l)))" ?w1]
  obtain v ps where "extract_agent remote agents
      (PyList (map PyStr (map py_strip (py_split 44 (py_strip l))))) ?w1 =
     (Inr v, ?w1\<lparr>trace := trace ?w1 @
        Print (extract_header (length (map PyStr (map py_strip (py_split 44 (py_strip l)))))) #
        Call (ExtractCall (PyList (map PyStr (map py_strip (py_split 44 (py_strip l))))) None) #
        map Print ps,
        net := snd (remote (client agents)
          (ExtractCall (PyList (map PyStr (map py_strip (py_split 44 (py_strip l))))) None)
          (net ?w1))\<rparr>)"
    by blast
  with assms have "dispatch remote agents (lit ''2'') w =
     (Inr Continue,
      w\<lparr>stdin := ls,
        trace := trace w @
          [Prompt (10 # lit ''Enter URL(s) (comma-separated for multiple): ''), Read l,
           Print (extract_header (length (py_split 44 (py_strip l)))),
           Call (ExtractCall
             (PyList (map PyStr (map py_strip (py_split 44 (py_strip l))))) None)] @
          map Print ps,
        net := snd (remote (client agents)
          (ExtractCall (PyList (map PyStr (map py_strip (py_split 44 (py_strip l))))) None)
          (net w))\<rparr>)"
    by (simp add: dispatch_def choices_distinct thn_def py_input_def ret_def Let_def)
  then show ?thesis by blast
qed

lemma dispatch_outcome:
  "\<exists>r w'. dispatch remote agents c w = (r, w') \<and>
     (r = Inr Break \<longleftrightarrow> c = lit ''4'') \<and>
     (\<forall>e. r = Inl e \<longrightarrow> e = EOFError \<and> stdin w' = [])"
proof -
  consider (one) "c = lit ''1''" | (two) "c = lit ''2''" | (three) "c = lit ''3''"
    | (four) "c = lit ''4''"
    | (other) "c \<noteq> lit ''1''" "c \<noteq> lit ''2''" "c \<noteq> lit ''3''" "c \<noteq> lit ''4''"
    by blast
  then show ?thesis
  proof cases
    case four
    then show ?thesis by (simp add: dispatch_exit)
  next
    case other
    then show ?thesis by (simp add: dispatch_def thn_print ret_def)
  next
    case one
    show ?thesis
    proof (cases "stdin w")
      case Nil
      with one show ?thesis
        by (simp add: dispatch_def choices_distinct thn_def py_input_def)
    next
      case (Cons l ls)
      let ?w1 = "w\<lparr>stdin := ls, trace := trace w @
         [Prompt (10 # lit ''Enter search query: ''), Read l]\<rparr>"
      from search_agent_run [of remote agents "PyStr (py_strip l)" "PyInt 5" ?w1]
      obtain v ps w2 where "search_agent remote agents (PyStr (py_strip l)) (PyInt 5) ?w1 =
          (Inr v, w2)"
        by blast
      with one Cons show ?thesis
        by (simp add: dispatch_def choices_distinct thn_def py_input_def ret_def Let_def
            py_print_def)
    qed
  next
    case three
    show ?thesis
    proof (cases "stdin w")
      case Nil
      with three show ?thesis
        by (simp add: dispatch_def choices_distinct thn_def py_input_def)
    next
      case (Cons l ls)
      let ?w1 = "w\<lparr>stdin := ls, trace := trace w @
         [Prompt (10 # lit ''Enter URL to crawl: ''), Read l]\<rparr>"
      from crawl_agent_run [of remote agents "PyStr (py_strip l)" "PyInt 2" ?w1]
      obtain v ps w2 where "crawl_agent remote agents (PyStr (py_strip l)) (PyInt 2) ?w1 =
          (Inr v, w2)"
        by blast
      with three Cons show ?thesis
        by (simp add: dispatch_def choices_distinct thn_def py_input_def ret_def Let_def
            py_print_def)
    qed
  next
    case two
    show ?thesis
    proof (cases "stdin w")
      case Nil
      with two show ?thesis
        by (simp add: dispatch_def choices_distinct thn_def py_input_def)
    next
      case (Cons l ls)
      show ?thesis
      proof (cases "py_strip l = []")
        case True
        with two Cons show ?thesis
          by (simp add: dispatch_def choices_distinct thn_def py_input_def ret_def Let_def
              py_print_def)
      next
        case False
        from dispatch_extract [OF Cons False, of remote agents] two
        show ?thesis by (auto simp: choices_distinct)
      qed
    qed
  qed
qed

lemma body_break:
  "main_loop_body remote agents w = (Inr Break, w') \<longleftrightarrow>
     (\<exists>l ls. stdin w = l # ls \<and> py_strip l = lit ''4'' \<and>
        w' = w\<lparr>stdin := ls, trace := trace w @ map Print menu_lines @
               [Prompt (10 # lit ''Enter your choice (1-4): ''), Read l,
                Print [Lit (10 # 128075 # lit '' Goodbye!'')]]\<rparr>)"
proof (cases "stdin w")
  case Nil
  then show ?thesis by (simp add: main_loop_body_unfold)
next
  case (Cons l ls)
  let ?w1 = "w\<lparr>stdin := ls, trace := trace w @ map Print menu_lines @
                      [Prompt (10 # lit ''Enter your choice (1-4): ''), Read l]\<rparr>"
  from dispatch_outcome [of remote agents "py_strip l" ?w1]
  obtain r w2 where d: "dispatch remote agents (py_strip l) ?w1 = (r, w2)"
    and b: "r = Inr Break \<longleftrightarrow> py_strip l = lit ''4''"
    by blast
  show ?thesis
  proof (cases "py_strip l = lit ''4''")
    case True
    with Cons show ?thesis
      by (auto simp: main_loop_body_unfold dispatch_exit)
  next
    case False
    with b d Cons show ?thesis
      by (auto simp: main_loop_body_unfold split: sum.splits flow.splits list.splits)
  qed
qed

lemma body_continue:
  assumes "main_loop_body remote agents w = (Inr Continue, w')"
  shows "\<exists>es a. trace w' = es @ [Prompt (10 # lit ''Press Enter to continue...''), Read a]"
proof (cases "stdin w")
  case Nil
  with assms show ?thesis by (simp add: main_loop_body_unfold)
next
  case (Cons l ls)
  let ?w1 = "w\<lparr>stdin := ls, trace := trace w @ map Print menu_lines @
                      [Prompt (10 # lit ''Enter your choice (1-4): ''), Read l]\<rparr>"
  obtain r w2 where d: "dispatch remote agents (py_strip l) ?w1 = (r, w2)"
    by (cases "dispatch remote agents (py_strip l) ?w1")
  with assms Cons show ?thesis
    by (auto simp: main_loop_body_unfold split: sum.splits flow.splits list.splits)
qed

lemma body_raise:
  assumes "main_loop_body remote agents w = (Inl e, w')"
  shows "e = EOFError \<and> stdin w' = []"
proof (cases "stdin w")
  case Nil
  with assms show ?thesis by (auto simp: main_loop_body_unfold)
next
  case (Cons l ls)
  let ?w1 = "w\<lparr>stdin := ls, trace := trace w @ map Print menu_lines @
                      [Prompt (10 # lit ''Enter your choice (1-4): ''), Read l]\<rparr>"
  from dispatch_outcome [of remote agents "py_strip l" ?w1]
  obtain r w2 where d: "dispatch remote agents (py_strip l) ?w1 = (r, w2)"
    and x: "\<forall>e. r = Inl e \<longrightarrow> e = EOFError \<and> stdin w2 = []"
    by blast
  with assms Cons show ?thesis
    by (auto simp: main_loop_body_unfold split: sum.splits flow.splits list.splits)
qed

lemma main_loop_returns:
  "main_loop remote agents w = (Inr (), w') \<Longrightarrow>
     \<exists>es l. trace w' = es @ [Prompt (10 # lit ''Enter your choice (1-4): ''), Read l,
                Print [Lit (10 # 128075 # lit '' Goodbye!'')]] \<and> py_strip l = lit ''4''"
proof (induction remote agents w rule: main_loop.induct)
  case (1 remote agents w)
  obtain r w1 where b: "main_loop_body remote agents w = (r, w1)"
    by (cases "main_loop_body remote agents w")
  show ?case
  proof (cases r)
    case (Inl e)
    with b "1.prems" show ?thesis by (simp add: main_loop.simps)
  next
    case (Inr f)
    show ?thesis
    proof (cases f)
      case Break
      with b Inr "1.prems" have "w' = w1" by (simp add: main_loop.simps)
      with b Inr Break show ?thesis by (auto simp: body_break)
    next
      case Continue
      with b Inr "1.prems" have "main_loop remote agents w1 = (Inr (), w')"
        by (simp add: main_loop.simps)
      with "1.IH" [OF b [symmetric] Inr Continue] show ?thesis .
    qed
  qed
qed

lemma main_loop_raises:
  "main_loop remote agents w = (Inl e, w') \<Longrightarrow> e = EOFError \<and> stdin w' = []"
proof (induction remote agents w rule: main_loop.induct)
  case (1 remote agents w)
  obtain r w1 where b: "main_loop_body remote agents w = (r, w1)"
    by (cases "main_loop_body remote agents w")
  show ?case
  proof (cases r)
    case (Inl e1)
    with b "1.prems" have "e1 = e" "w1 = w'" by (simp_all add: main_loop.simps)
    with b Inl show ?thesis using body_raise by blast
  next
    case (Inr f)
    show ?thesis
    proof (cases f)
      case Break
      with b Inr "1.prems" show ?thesis by (simp add: main_loop.simps)
    next
      case Continue
      with b Inr "1.prems" have "main_loop remote agents w1 = (Inl e, w')"
        by (simp add: main_loop.simps)
      with "1.IH" [OF b [symmetric] Inr Continue] show ?thesis .
    qed
  qed
qed

lemma body_extract_calls:
  assumes "stdin w = c # l # rest" and "py_strip c = lit ''2''" and "py_strip l \<noteq> []"
  shows "\<exists>f w'. main_loop_body remote agents w = (f, w') \<and> stdin w' = tl rest \<and>
           (f = Inr Continue \<longleftrightarrow> rest \<noteq> []) \<and>
           calls (trace w') = calls (trace w) @
             [ExtractCall (PyList (map PyStr (map py_strip (py_split 44 (py_strip l))))) None]"
proof -
  let ?w1 = "w\<lparr>stdin := l # rest, trace := trace w @ map Print menu_lines @
                      [Prompt (10 # lit ''Enter your choice (1-4): ''), Read c]\<rparr>"
  let ?req = "ExtractCall (PyList (map PyStr (map py_strip (py_split 44 (py_strip l))))) None"
  have "stdin ?w1 = l # rest" by simp
  from dispatch_extract [OF this assms(3), of remote agents]
  obtain w2 ps where d: "dispatch remote agents (lit ''2'') ?w1 = (Inr Continue, w2)"
    and s2: "stdin w2 = rest"
    and t2: "trace w2 = trace w @ map Print menu_lines @
          [Prompt (10 # lit ''Enter your choice (1-4): ''), Read c,
           Prompt (10 # lit ''Enter URL(s) (comma-separated for multiple): ''), Read l,
           Print (extract_header (length (py_split 44 (py_strip l)))), Call ?req] @
          map Print ps"
    by auto
  have c2: "calls (trace w2) = calls (trace w) @ [?req]"
    unfolding t2 by (simp add: calls_append calls_Print)
  have u: "main_loop_body remote agents w =
      (case stdin w2 of
         [] \<Rightarrow> (Inl EOFError,
                w2\<lparr>trace := trace w2 @ [Prompt (10 # lit ''Press Enter to continue...'')]\<rparr>)
       | a # rest' \<Rightarrow>
           (Inr Continue,
            w2\<lparr>stdin := rest', trace := trace w2 @
               [Prompt (10 # lit ''Press Enter to continue...''), Read a]\<rparr>))"
    using assms(1,2) d by (simp add: main_loop_body_unfold)
  show ?thesis
  proof (cases rest)
    case Nil
    with u s2 c2 show ?thesis by (simp add: calls_append)
  next
    case (Cons a rest')
    with u s2 c2 show ?thesis by (simp add: calls_append)
  qed
qed

lemma py_split_nonempty: "py_split sep s \<noteq> []"
  by (induction s) (auto split: list.splits)

lemma length_py_split: "length (py_split sep s) = Suc (length (filter (\<lambda>c. c = sep) s))"
  by (induction s) (auto split: list.splits simp: py_split_nonempty)

lemma strip_choice_2: "py_strip (lit ''2'') = lit ''2''"
  by (simp add: py_strip_def lit_def isspace_def)

lemma strip_choice_4: "py_strip (lit ''4'') = lit ''4''"
  by (simp add: py_strip_def lit_def isspace_def)

lemma strip_urls_xy:
  "py_strip (lit ''https://x.com, https://y.com'') = lit ''https://x.com, https://y.com''"
  by (simp add: py_strip_def lit_def isspace_def)

lemma split_urls_xy:
  "map py_strip (py_split 44 (lit ''https://x.com, https://y.com'')) =
     [lit ''https://x.com'', lit ''https://y.com'']"
  by (simp add: py_strip_def lit_def isspace_def)

subsection \<open>What one pass of \<open>search_agent\<close> shows\<close>

lemma search_agent_result_shown:
  assumes "map_of kvs (lit ''title'') = Some title"
    and "map_of kvs (lit ''url'') = Some url"
    and "(case map_of kvs (lit ''raw_content'') of None \<Rightarrow> PyStr [] | Some v \<Rightarrow> v) = raw"
    and "(if truthy raw then raw
          else (case map_of kvs (lit ''content'') of None \<Rightarrow> PyStr [] | Some v \<Rightarrow> v)) = PyStr c"
  shows "search_agent_result i (PyDict kvs) w =
     (Inr (), w\<lparr>trace := trace w @ map Print
        (search_agent_display i title url
           (case map_of kvs (lit ''score'') of None \<Rightarrow> PyStr (lit ''N/A'') | Some s \<Rightarrow> s)
           (PyStr c) (length c) (map fst kvs))\<rparr>)"
proof (cases "truthy raw")
  case True
  with assms show ?thesis
    by (simp add: search_agent_result_def search_agent_display_def thn_print thn_lift_Inr
        thn_ret py_print_def)
next
  case False
  with assms show ?thesis
    by (simp add: search_agent_result_def search_agent_display_def thn_print thn_lift_Inr
        thn_ret py_print_def)
qed

subsection \<open>A record in the results of a response\<close>

text \<open>
  The loop over the results reaches a record when the records before it raise nothing;
  what the record's pass prints then stands in the agent's output, between the lines of
  the earlier records and whatever follows.
\<close>

lemma for_enumerate_append:
  "for_enumerate body i (xs @ ys) w =
     (case for_enumerate body i xs w of
        (Inl e, w') \<Rightarrow> (Inl e, w')
      | (Inr u, w') \<Rightarrow> for_enumerate body (i + length xs) ys w')"
  by (induction xs arbitrary: i w) (auto split: prod.splits sum.splits)

lemma for_enumerate_returns:
  assumes "\<forall>x\<in>set xs. \<forall>i w. fst (body i x w) = Inr ()"
  shows "fst (for_enumerate body i xs w) = Inr ()"
  using assms
proof (induction xs arbitrary: i w)
  case Nil
  show ?case by simp
next
  case (Cons x xs)
  obtain r w1 where b: "body i x w = (r, w1)" by (cases "body i x w")
  with Cons.prems have "r = Inr ()" by (metis fst_conv list.set_intros(1))
  with b Cons show ?case by simp
qed

lemma prints_only_at:
  assumes "prints_only m"
  shows "\<exists>r ls. m w = (r, w\<lparr>trace := trace w @ map Print ls\<rparr>)"
proof -
  from prints_onlyD [OF assms, of w]
  obtain r ls where "\<And>t. m (w\<lparr>trace := t\<rparr>) = (r, w\<lparr>trace := t @ map Print ls\<rparr>)"
    by blast
  from this [of "trace w"] show ?thesis by auto
qed

lemma for_enumerate_reaches:
  assumes po: "\<And>i x. prints_only (body i x)"
    and ok: "\<forall>x\<in>set pre. \<forall>i w. fst (body i x w) = Inr ()"
    and shown: "\<And>w. body (i + length pre) x w = (Inr (), w\<lparr>trace := trace w @ map Print d\<rparr>)"
  shows "\<exists>res ls ls'. for_enumerate body i (pre @ x # post) w =
           (res, w\<lparr>trace := trace w @ map Print ls @ map Print d @ map Print ls'\<rparr>)"
proof -
  from prints_only_at [OF prints_only_for [of body i pre, OF po], of w]
  obtain r1 ls where p1: "for_enumerate body i pre w = (r1, w\<lparr>trace := trace w @ map Print ls\<rparr>)"
    by blast
  with for_enumerate_returns [OF ok, of i w] have r1: "r1 = Inr ()" by simp
  let ?w1 = "w\<lparr>trace := trace w @ map Print ls\<rparr>"
  let ?w2 = "?w1\<lparr>trace := trace ?w1 @ map Print d\<rparr>"
  from prints_only_at [OF prints_only_for [of body "Suc (i + length pre)" post, OF po], of ?w2]
  obtain r3 ls' where p3: "for_enumerate body (Suc (i + length pre)) post ?w2 =
      (r3, ?w2\<lparr>trace := trace ?w2 @ map Print ls'\<rparr>)"
    by blast
  have "for_enumerate body i (pre @ x # post) w =
      (r3, w\<lparr>trace := trace w @ map Print ls @ map Print d @ map Print ls'\<rparr>)"
    using p1 r1 shown [of ?w1] p3 by (simp add: for_enumerate_append)
  then show ?thesis by blast
qed

lemma agent_success:
  assumes "remote c r (net w) = (Inr resp, n')"
    and "F resp (w\<lparr>trace := trace w @ [Print hdr, Call r], net := n'\<rparr>) =
           (res, w\<lparr>trace := trace w @ [Print hdr, Call r] @ map Print ls, net := n'\<rparr>)"
  shows "\<exists>v ls'. thn (py_print hdr) (\<lambda>_. try_except (thn (call remote c r) F)
             (\<lambda>e. thn (py_print (l e)) (\<lambda>_. ret PyNone))) w =
           (Inr v, w\<lparr>trace := trace w @ [Print hdr, Call r] @ map Print ls @ map Print ls',
                       net := n'\<rparr>)"
proof (cases res)
  case (Inl e)
  with assms have "thn (py_print hdr) (\<lambda>_. try_except (thn (call remote c r) F)
             (\<lambda>e. thn (py_print (l e)) (\<lambda>_. ret PyNone))) w =
           (Inr PyNone, w\<lparr>trace := trace w @ [Print hdr, Call r] @ map Print ls @ map Print [l e],
                       net := n'\<rparr>)"
    by (simp add: thn_def py_print_def try_except_def call_def ret_def)
  then show ?thesis by blast
next
  case (Inr v)
  with assms have "thn (py_print hdr) (\<lambda>_. try_except (thn (call remote c r) F)
             (\<lambda>e. thn (py_print (l e)) (\<lambda>_. ret PyNone))) w =
           (Inr v, w\<lparr>trace := trace w @ [Print hdr, Call r] @ map Print ls @ map Print [],
                       net := n'\<rparr>)"
    by (simp add: thn_def py_print_def try_except_def call_def ret_def)
  then show ?thesis by blast
qed

lemma search_agent_shows:
  assumes rem: "remote (client self) (SearchCall q m (lit ''advanced'') True) (net w) =
      (Inr (PyDict resp), n')"
    and res: "map_of resp (lit ''results'') = Some (PyList (pre @ PyDict kvs # post))"
    and ok: "\<forall>r\<in>set pre. \<forall>i w'. fst (search_agent_result i r (w' :: 'w world)) = Inr ()"
    and shown: "\<And>w' :: 'w world. search_agent_result (Suc (length pre)) (PyDict kvs) w' =
      (Inr (), w'\<lparr>trace := trace w' @ map Print d\<rparr>)"
  shows "\<exists>v ls ls'. search_agent remote self q m (w :: 'w world) =
     (Inr v,
      w\<lparr>trace := trace w @
           [Print (search_header q), Call (SearchCall q m (lit ''advanced'') True),
            Print [Lit (lit ''Found ''), Val (PyInt (int (length (pre @ PyDict kvs # post)))),
                   Lit (lit '' results:'' @ [10])]] @
           map Print ls @ map Print d @ map Print ls',
         net := n'\<rparr>)"
proof -
  let ?found = "[Lit (lit ''Found ''), Val (PyInt (int (length (pre @ PyDict kvs # post)))),
                   Lit (lit '' results:'' @ [10])]"
  let ?w3 = "w\<lparr>trace := trace w @
           [Print (search_header q), Call (SearchCall q m (lit ''advanced'') True),
            Print ?found], net := n'\<rparr>"
  from shown have "\<And>w' :: 'w world. search_agent_result (1 + length pre) (PyDict kvs) w' =
      (Inr (), w'\<lparr>trace := trace w' @ map Print d\<rparr>)"
    by simp
  from for_enumerate_reaches [of search_agent_result pre 1 "PyDict kvs" d post ?w3,
      OF prints_only_search_result ok this]
  obtain r ls ls' where loop: "for_enumerate search_agent_result 1 (pre @ PyDict kvs # post) ?w3 =
      (r, ?w3\<lparr>trace := trace ?w3 @ map Print (ls @ d @ ls')\<rparr>)"
    by auto
  have "\<exists>v ls''. search_agent remote self q m w =
     (Inr v,
      w\<lparr>trace := trace w @
           [Print (search_header q), Call (SearchCall q m (lit ''advanced'') True)] @
           map Print (?found # ls @ d @ ls') @ map Print ls'',
         net := n'\<rparr>)"
    unfolding search_agent_def search_header_def
  proof (rule agent_success [where remote = remote and c = "client self", OF rem])
    show "thn (lift (py_get (PyDict resp) (lit ''results'') (PyList []))) (\<lambda>results.
        thn (lift (py_len results)) (\<lambda>n.
        thn (py_print [Lit (lit ''Found ''), Val (PyInt (int n)),
                       Lit (lit '' results:'' @ [10])]) (\<lambda>_.
        thn (lift (py_iter results)) (\<lambda>items.
        thn (for_enumerate search_agent_result 1 items) (\<lambda>_.
        ret (PyDict resp))))))
        (w\<lparr>trace := trace w @
           [Print [Lit (10 # 128269 # lit '' SEARCH AGENT: Searching for '' @ [39]), Val q,
                   Lit (39 # lit ''...'' @ [10])],
            Call (SearchCall q m (lit ''advanced'') True)], net := n'\<rparr>) =
       (case r of Inl e \<Rightarrow> Inl e | Inr u \<Rightarrow> Inr (PyDict resp),
        w\<lparr>trace := trace w @
           [Print [Lit (10 # 128269 # lit '' SEARCH AGENT: Searching for '' @ [39]), Val q,
                   Lit (39 # lit ''...'' @ [10])],
            Call (SearchCall q m (lit ''advanced'') True)] @
           map Print (?found # ls @ d @ ls'), net := n'\<rparr>)"
      using res loop
      by (simp add: thn_def lift_def py_print_def ret_def search_header_def world_swap
            split: sum.splits)
  qed
  then obtain v ls'' where "search_agent remote self q m w =
     (Inr v,
      w\<lparr>trace := trace w @
           [Print (search_header q), Call (SearchCall q m (lit ''advanced'') True),
            Print ?found] @
           map Print ls @ map Print d @ map Print (ls' @ ls''),
         net := n'\<rparr>)"
    by auto
  then show ?thesis by blast
qed



section \<open>The claims\<close>

text \<open>
  C1. Whenever the remote client's call raises an exception \<open>e\<close>, each of
  \<open>search_agent\<close>, \<open>extract_agent\<close> and \<open>crawl_agent\<close> returns the value
  \<open>None\<close> instead of raising: after the header and the call it prints its failure
  message with \<open>str(e)\<close> and nothing else. (For \<open>extract_agent\<close> the call takes place
  when its argument has a length, which line 176 asks for before the \<open>try\<close>.)
\<close>

theorem agents_catch_remote_exception:
  "(remote (client self) (SearchCall q m (lit ''advanced'') True) (net w) = (Inl e, n') \<longrightarrow>
      search_agent remote self q m w =
        (Inr PyNone,
         w\<lparr>trace := trace w @
              [Print (search_header q), Call (SearchCall q m (lit ''advanced'') True),
               Print [Lit (10060 # lit '' Error in search: ''), ExcStr e]],
            net := n'\<rparr>)) \<and>
   (py_len (if isinstance_str urls then PyList [urls] else urls) = Inr k \<and>
    remote (client self)
      (ExtractCall (if isinstance_str urls then PyList [urls] else urls) None) (net w) =
      (Inl e, n') \<longrightarrow>
      extract_agent remote self urls w =
        (Inr PyNone,
         w\<lparr>trace := trace w @
              [Print (extract_header k),
               Call (ExtractCall (if isinstance_str urls then PyList [urls] else urls) None),
               Print [Lit (10060 # lit '' Error in extraction: ''), ExcStr e]],
            net := n'\<rparr>)) \<and>
   (remote (client self) (ExtractCall (PyList [url]) (Some True)) (net w) = (Inl e, n') \<longrightarrow>
      crawl_agent remote self url d w =
        (Inr PyNone,
         w\<lparr>trace := trace w @
              [Print (crawl_header url d), Call (ExtractCall (PyList [url]) (Some True)),
               Print [Lit (10060 # lit '' Error in crawling: ''), ExcStr e]],
            net := n'\<rparr>))"
  by (simp add: search_agent_def extract_agent_def crawl_agent_def search_header_def
        extract_header_def crawl_header_def thn_print try_call ret_def thn_lift_Inr Let_def)

text \<open>The three agents against a client whose every call fails with a connection error.\<close>

theorem agents_catch_remote_exception_witness:
  "search_agent (\<lambda>c r n. (Inl (OtherException (lit ''ConnectionError'') (lit ''timed out'')), n))
      \<lparr>api_key = PyStr (lit ''tvly-key''), client = ()\<rparr> (PyStr (lit ''cats'')) (PyInt 5)
      \<lparr>stdin = [], trace = [], net = ()\<rparr> =
     (Inr PyNone,
      \<lparr>stdin = [],
       trace = [Print (search_header (PyStr (lit ''cats''))),
                Call (SearchCall (PyStr (lit ''cats'')) (PyInt 5) (lit ''advanced'') True),
                Print [Lit (10060 # lit '' Error in search: ''),
                       ExcStr (OtherException (lit ''ConnectionError'') (lit ''timed out''))]],
       net = ()\<rparr>) \<and>
   extract_agent (\<lambda>c r n. (Inl (OtherException (lit ''ConnectionError'') (lit ''timed out'')), n))
      \<lparr>api_key = PyStr (lit ''tvly-key''), client = ()\<rparr> (PyStr (lit ''https://a''))
      \<lparr>stdin = [], trace = [], net = ()\<rparr> =
     (Inr PyNone,
      \<lparr>stdin = [],
       trace = [Print (extract_header 1),
                Call (ExtractCall (PyList [PyStr (lit ''https://a'')]) None),
                Print [Lit (10060 # lit '' Error in extraction: ''),
                       ExcStr (OtherException (lit ''ConnectionError'') (lit ''timed out''))]],
       net = ()\<rparr>) \<and>
   crawl_agent (\<lambda>c r n. (Inl (OtherException (lit ''ConnectionError'') (lit ''timed out'')), n))
      \<lparr>api_key = PyStr (lit ''tvly-key''), client = ()\<rparr> (PyStr (lit ''https://a'')) (PyInt 2)
      \<lparr>stdin = [], trace = [], net = ()\<rparr> =
     (Inr PyNone,
      \<lparr>stdin = [],
       trace = [Print (crawl_header (PyStr (lit ''https://a'')) (PyInt 2)),
                Call (ExtractCall (PyList [PyStr (lit ''https://a'')]) (Some True)),
                Print [Lit (10060 # lit '' Error in crawling: ''),
                       ExcStr (OtherException (lit ''ConnectionError'') (lit ''timed out''))]],
       net = ()\<rparr>)"
  using agents_catch_remote_exception
    [of "\<lambda>c r n. (Inl (OtherException (lit ''ConnectionError'') (lit ''timed out'')), n)"
        "\<lparr>api_key = PyStr (lit ''tvly-key''), client = ()\<rparr>" "PyStr (lit ''cats'')" "PyInt 5"
        "\<lparr>stdin = [], trace = [], net = ()\<rparr>"
        "OtherException (lit ''ConnectionError'') (lit ''timed out'')" "()"
        "PyStr (lit ''https://a'')" 1 "PyStr (lit ''https://a'')" "PyInt 2"]
  by simp

text \<open>
  C2. Let the search return a response whose results hold a record with a title and a
  URL, the records before it having been formatted without an exception. Then
  \<open>search_agent\<close> shows this record, with these lines in this place of its output,
  and the content and the length it shows are: the raw content when that is a non-empty
  string; the summarized content when the raw content is absent, empty or null and the
  summarized content is a non-empty string; the empty string, of length 0, when the raw
  content is absent, empty or null and the summarized content is absent or empty.
\<close>

theorem search_agent_content_rule:
  "remote (client self) (SearchCall q m (lit ''advanced'') True) (net w) =
     (Inr (PyDict resp), n') \<and>
   map_of resp (lit ''results'') = Some (PyList (pre @ PyDict kvs # post)) \<and>
   (\<forall>r\<in>set pre. \<forall>i w'. fst (search_agent_result i r (w' :: 'w world)) = Inr ()) \<and>
   map_of kvs (lit ''title'') = Some title \<and> map_of kvs (lit ''url'') = Some url \<and>
   (map_of kvs (lit ''raw_content'') = Some (PyStr c) \<and> c \<noteq> [] \<or>
    (map_of kvs (lit ''raw_content'') = None \<or>
     map_of kvs (lit ''raw_content'') = Some (PyStr []) \<or>
     map_of kvs (lit ''raw_content'') = Some PyNone) \<and>
    map_of kvs (lit ''content'') = Some (PyStr c) \<and> c \<noteq> [] \<or>
    (map_of kvs (lit ''raw_content'') = None \<or>
     map_of kvs (lit ''raw_content'') = Some (PyStr []) \<or>
     map_of kvs (lit ''raw_content'') = Some PyNone) \<and>
    (map_of kvs (lit ''content'') = None \<or> map_of kvs (lit ''content'') = Some (PyStr [])) \<and>
    c = []) \<longrightarrow>
   (\<exists>v ls ls'. search_agent remote self q m (w :: 'w world) =
     (Inr v,
      w\<lparr>trace := trace w @
           [Print (search_header q), Call (SearchCall q m (lit ''advanced'') True),
            Print [Lit (lit ''Found ''), Val (PyInt (int (length (pre @ PyDict kvs # post)))),
                   Lit (lit '' results:'' @ [10])]] @
           map Print ls @
           map Print (search_agent_display (Suc (length pre)) title url
              (case map_of kvs (lit ''score'') of None \<Rightarrow> PyStr (lit ''N/A'') | Some s \<Rightarrow> s)
              (PyStr c) (length c) (map fst kvs)) @
           map Print ls',
         net := n'\<rparr>))"
proof (intro impI, elim conjE)
  assume rem: "remote (client self) (SearchCall q m (lit ''advanced'') True) (net w) =
     (Inr (PyDict resp), n')"
    and res: "map_of resp (lit ''results'') = Some (PyList (pre @ PyDict kvs # post))"
    and ok: "\<forall>r\<in>set pre. \<forall>i w'. fst (search_agent_result i r (w' :: 'w world)) = Inr ()"
    and t: "map_of kvs (lit ''title'') = Some title"
    and u: "map_of kvs (lit ''url'') = Some url"
    and rule: "map_of kvs (lit ''raw_content'') = Some (PyStr c) \<and> c \<noteq> [] \<or>
      (map_of kvs (lit ''raw_content'') = None \<or>
       map_of kvs (lit ''raw_content'') = Some (PyStr []) \<or>
       map_of kvs (lit ''raw_content'') = Some PyNone) \<and>
      map_of kvs (lit ''content'') = Some (PyStr c) \<and> c \<noteq> [] \<or>
      (map_of kvs (lit ''raw_content'') = None \<or>
       map_of kvs (lit ''raw_content'') = Some (PyStr []) \<or>
       map_of kvs (lit ''raw_content'') = Some PyNone) \<and>
      (map_of kvs (lit ''content'') = None \<or> map_of kvs (lit ''content'') = Some (PyStr [])) \<and>
      c = []"
  from rule have "(if truthy (case map_of kvs (lit ''raw_content'') of
                              None \<Rightarrow> PyStr [] | Some v \<Rightarrow> v)
        then (case map_of kvs (lit ''raw_content'') of None \<Rightarrow> PyStr [] | Some v \<Rightarrow> v)
        else (case map_of kvs (lit ''content'') of None \<Rightarrow> PyStr [] | Some v \<Rightarrow> v)) = PyStr c"
    by auto
  from search_agent_result_shown [OF t u refl this]
  have "\<And>w' :: 'w world. search_agent_result (Suc (length pre)) (PyDict kvs) w' =
      (Inr (), w'\<lparr>trace := trace w' @ map Print
        (search_agent_display (Suc (length pre)) title url
           (case map_of kvs (lit ''score'') of None \<Rightarrow> PyStr (lit ''N/A'') | Some s \<Rightarrow> s)
           (PyStr c) (length c) (map fst kvs))\<rparr>)" .
  from search_agent_shows [where remote = remote and self = self, OF rem res ok this]
  show "\<exists>v ls ls'. search_agent remote self q m w =
     (Inr v,
      w\<lparr>trace := trace w @
           [Print (search_header q), Call (SearchCall q m (lit ''advanced'') True),
            Print [Lit (lit ''Found ''), Val (PyInt (int (length (pre @ PyDict kvs # post)))),
                   Lit (lit '' results:'' @ [10])]] @
           map Print ls @
           map Print (search_agent_display (Suc (length pre)) title url
              (case map_of kvs (lit ''score'') of None \<Rightarrow> PyStr (lit ''N/A'') | Some s \<Rightarrow> s)
              (PyStr c) (length c) (map fst kvs)) @
           map Print ls',
         net := n'\<rparr>)" .
qed

text \<open>
  One response with three records: both contents, a null raw content with a summary,
  and neither content.
\<close>

theorem search_agent_content_rule_witness:
  "(\<exists>v ls ls'.
      search_agent (\<lambda>c r n. (Inr (PyDict [(lit ''results'', PyList [PyDict [(lit ''title'', PyStr (lit ''A'')), (lit ''url'', PyStr (lit ''https://a'')),
         (lit ''content'', PyStr (lit ''short'')),
         (lit ''raw_content'', PyStr (lit ''the full text''))], PyDict [(lit ''title'', PyStr (lit ''B'')), (lit ''url'', PyStr (lit ''https://b'')),
         (lit ''content'', PyStr (lit ''summary'')), (lit ''raw_content'', PyNone)], PyDict [(lit ''title'', PyStr (lit ''C'')), (lit ''url'', PyStr (lit ''https://c''))]])]), n)) \<lparr>api_key = PyStr (lit ''tvly-key''), client = ()\<rparr> (PyStr (lit ''cats'')) (PyInt 5) \<lparr>stdin = [], trace = [], net = ()\<rparr> =
        (Inr v,
         \<lparr>stdin = [],
          trace =
            [Print (search_header (PyStr (lit ''cats''))),
             Call (SearchCall (PyStr (lit ''cats'')) (PyInt 5) (lit ''advanced'') True),
             Print [Lit (lit ''Found ''), Val (PyInt 3), Lit (lit '' results:'' @ [10])]] @
            map Print ls @
            map Print (search_agent_display 1 (PyStr (lit ''A'')) (PyStr (lit ''https://a''))
               (PyStr (lit ''N/A'')) (PyStr (lit ''the full text'')) (length (lit ''the full text''))
               [lit ''title'', lit ''url'', lit ''content'', lit ''raw_content'']) @
            map Print ls',
          net = ()\<rparr>)) \<and>
   (\<exists>v ls ls'.
      search_agent (\<lambda>c r n. (Inr (PyDict [(lit ''results'', PyList [PyDict [(lit ''title'', PyStr (lit ''A'')), (lit ''url'', PyStr (lit ''https://a'')),
         (lit ''content'', PyStr (lit ''short'')),
         (lit ''raw_content'', PyStr (lit ''the full text''))], PyDict [(lit ''title'', PyStr (lit ''B'')), (lit ''url'', PyStr (lit ''https://b'')),
         (lit ''content'', PyStr (lit ''summary'')), (lit ''raw_content'', PyNone)], PyDict [(lit ''title'', PyStr (lit ''C'')), (lit ''url'', PyStr (lit ''https://c''))]])]), n)) \<lparr>api_key = PyStr (lit ''tvly-key''), client = ()\<rparr> (PyStr (lit ''cats'')) (PyInt 5) \<lparr>stdin = [], trace = [], net = ()\<rparr> =
        (Inr v,
         \<lparr>stdin = [],
          trace =
            [Print (search_header (PyStr (lit ''cats''))),
             Call (SearchCall (PyStr (lit ''cats'')) (PyInt 5) (lit ''advanced'') True),
             Print [Lit (lit ''Found ''), Val (PyInt 3), Lit (lit '' results:'' @ [10])]] @
            map Print ls @
            map Print (search_agent_display (Suc 1) (PyStr (lit ''B'')) (PyStr (lit ''https://b''))
               (PyStr (lit ''N/A'')) (PyStr (lit ''summary'')) (length (lit ''summary''))
               [lit ''title'', lit ''url'', lit ''content'', lit ''raw_content'']) @
            map Print ls',
          net = ()\<rparr>)) \<and>
   (\<exists>v ls ls'.
      search_agent (\<lambda>c r n. (Inr (PyDict [(lit ''results'', PyList [PyDict [(lit ''title'', PyStr (lit ''A'')), (lit ''url'', PyStr (lit ''https://a'')),
         (lit ''content'', PyStr (lit ''short'')),
         (lit ''raw_content'', PyStr (lit ''the full text''))], PyDict [(lit ''title'', PyStr (lit ''B'')), (lit ''url'', PyStr (lit ''https://b'')),
         (lit ''content'', PyStr (lit ''summary'')), (lit ''raw_content'', PyNone)], PyDict [(lit ''title'', PyStr (lit ''C'')), (lit ''url'', PyStr (lit ''https://c''))]])]), n)) \<lparr>api_key = PyStr (lit ''tvly-key''), client = ()\<rparr> (PyStr (lit ''cats'')) (PyInt 5) \<lparr>stdin = [], trace = [], net = ()\<rparr> =
        (Inr v,
         \<lparr>stdin = [],
          trace =
            [Print (search_header (PyStr (lit ''cats''))),
             Call (SearchCall (PyStr (lit ''cats'')) (PyInt 5) (lit ''advanced'') True),
             Print [Lit (lit ''Found ''), Val (PyInt 3), Lit (lit '' results:'' @ [10])]] @
            map Print ls @
            map Print (search_agent_display (Suc (Suc 1)) (PyStr (lit ''C'')) (PyStr (lit ''https://c''))
               (PyStr (lit ''N/A'')) (PyStr []) (length [])
               [lit ''title'', lit ''url'']) @
            map Print ls',
          net = ()\<rparr>))"
proof -
  have a: "\<And>i w'. fst (search_agent_result i (PyDict [(lit ''title'', PyStr (lit ''A'')), (lit ''url'', PyStr (lit ''https://a'')),
         (lit ''content'', PyStr (lit ''short'')),
         (lit ''raw_content'', PyStr (lit ''the full text''))]) (w' :: unit world)) = Inr ()"
    by (subst search_agent_result_shown [where raw = "PyStr (lit ''the full text'')"
          and c = "lit ''the full text''"]) (simp_all add: lit_def)
  have b: "\<And>i w'. fst (search_agent_result i (PyDict [(lit ''title'', PyStr (lit ''B'')), (lit ''url'', PyStr (lit ''https://b'')),
         (lit ''content'', PyStr (lit ''summary'')), (lit ''raw_content'', PyNone)]) (w' :: unit world)) = Inr ()"
    by (subst search_agent_result_shown [where raw = PyNone and c = "lit ''summary''"])
       (simp_all add: lit_def)
  from search_agent_content_rule
      [of "(\<lambda>c r n. (Inr (PyDict [(lit ''results'', PyList [PyDict [(lit ''title'', PyStr (lit ''A'')), (lit ''url'', PyStr (lit ''https://a'')),
         (lit ''content'', PyStr (lit ''short'')),
         (lit ''raw_content'', PyStr (lit ''the full text''))], PyDict [(lit ''title'', PyStr (lit ''B'')), (lit ''url'', PyStr (lit ''https://b'')),
         (lit ''content'', PyStr (lit ''summary'')), (lit ''raw_content'', PyNone)], PyDict [(lit ''title'', PyStr (lit ''C'')), (lit ''url'', PyStr (lit ''https://c''))]])]), n))" "\<lparr>api_key = PyStr (lit ''tvly-key''), client = ()\<rparr>" "PyStr (lit ''cats'')" "PyInt 5" "\<lparr>stdin = [], trace = [], net = ()\<rparr>" "[(lit ''results'', PyList [PyDict [(lit ''title'', PyStr (lit ''A'')), (lit ''url'', PyStr (lit ''https://a'')),
         (lit ''content'', PyStr (lit ''short'')),
         (lit ''raw_content'', PyStr (lit ''the full text''))], PyDict [(lit ''title'', PyStr (lit ''B'')), (lit ''url'', PyStr (lit ''https://b'')),
         (lit ''content'', PyStr (lit ''summary'')), (lit ''raw_content'', PyNone)], PyDict [(lit ''title'', PyStr (lit ''C'')), (lit ''url'', PyStr (lit ''https://c''))]])]" "()" "[]" "[(lit ''title'', PyStr (lit ''A'')), (lit ''url'', PyStr (lit ''https://a'')),
         (lit ''content'', PyStr (lit ''short'')),
         (lit ''raw_content'', PyStr (lit ''the full text''))]"
          "[PyDict [(lit ''title'', PyStr (lit ''B'')), (lit ''url'', PyStr (lit ''https://b'')),
         (lit ''content'', PyStr (lit ''summary'')), (lit ''raw_content'', PyNone)], PyDict [(lit ''title'', PyStr (lit ''C'')), (lit ''url'', PyStr (lit ''https://c''))]]"
          "PyStr (lit ''A'')" "PyStr (lit ''https://a'')" "lit ''the full text''"]
  have 1: "(\<exists>v ls ls'.
      search_agent (\<lambda>c r n. (Inr (PyDict [(lit ''results'', PyList [PyDict [(lit ''title'', PyStr (lit ''A'')), (lit ''url'', PyStr (lit ''https://a'')),
         (lit ''content'', PyStr (lit ''short'')),
         (lit ''raw_content'', PyStr (lit ''the full text''))], PyDict [(lit ''title'', PyStr (lit ''B'')), (lit ''url'', PyStr (lit ''https://b'')),
         (lit ''content'', PyStr (lit ''summary'')), (lit ''raw_content'', PyNone)], PyDict [(lit ''title'', PyStr (lit ''C'')), (lit ''url'', PyStr (lit ''https://c''))]])]), n)) \<lparr>api_key = PyStr (lit ''tvly-key''), client = ()\<rparr> (PyStr (lit ''cats'')) (PyInt 5) \<lparr>stdin = [], trace = [], net = ()\<rparr> =
        (Inr v,
         \<lparr>stdin = [],
          trace =
            [Print (search_header (PyStr (lit ''cats''))),
             Call (SearchCall (PyStr (lit ''cats'')) (PyInt 5) (lit ''advanced'') True),
             Print [Lit (lit ''Found ''), Val (PyInt 3), Lit (lit '' results:'' @ [10])]] @
            map Print ls @
            map Print (search_agent_display 1 (PyStr (lit ''A'')) (PyStr (lit ''https://a''))
               (PyStr (lit ''N/A'')) (PyStr (lit ''the full text'')) (length (lit ''the full text''))
               [lit ''title'', lit ''url'', lit ''content'', lit ''raw_content'']) @
            map Print ls',
          net = ()\<rparr>))"
    by (simp add: lit_def)
  from search_agent_content_rule
      [of "(\<lambda>c r n. (Inr (PyDict [(lit ''results'', PyList [PyDict [(lit ''title'', PyStr (lit ''A'')), (lit ''url'', PyStr (lit ''https://a'')),
         (lit ''content'', PyStr (lit ''short'')),
         (lit ''raw_content'', PyStr (lit ''the full text''))], PyDict [(lit ''title'', PyStr (lit ''B'')), (lit ''url'', PyStr (lit ''https://b'')),
         (lit ''content'', PyStr (lit ''summary'')), (lit ''raw_content'', PyNone)], PyDict [(lit ''title'', PyStr (lit ''C'')), (lit ''url'', PyStr (lit ''https://c''))]])]), n))" "\<lparr>api_key = PyStr (lit ''tvly-key''), client = ()\<rparr>" "PyStr (lit ''cats'')" "PyInt 5" "\<lparr>stdin = [], trace = [], net = ()\<rparr>" "[(lit ''results'', PyList [PyDict [(lit ''title'', PyStr (lit ''A'')), (lit ''url'', PyStr (lit ''https://a'')),
         (lit ''content'', PyStr (lit ''short'')),
         (lit ''raw_content'', PyStr (lit ''the full text''))], PyDict [(lit ''title'', PyStr (lit ''B'')), (lit ''url'', PyStr (lit ''https://b'')),
         (lit ''content'', PyStr (lit ''summary'')), (lit ''raw_content'', PyNone)], PyDict [(lit ''title'', PyStr (lit ''C'')), (lit ''url'', PyStr (lit ''https://c''))]])]" "()" "[PyDict [(lit ''title'', PyStr (lit ''A'')), (lit ''url'', PyStr (lit ''https://a'')),
         (lit ''content'', PyStr (lit ''short'')),
         (lit ''raw_content'', PyStr (lit ''the full text''))]]" "[(lit ''title'', PyStr (lit ''B'')), (lit ''url'', PyStr (lit ''https://b'')),
         (lit ''content'', PyStr (lit ''summary'')), (lit ''raw_content'', PyNone)]"
          "[PyDict [(lit ''title'', PyStr (lit ''C'')), (lit ''url'', PyStr (lit ''https://c''))]]"
          "PyStr (lit ''B'')" "PyStr (lit ''https://b'')" "lit ''summary''"] a
  have 2: "(\<exists>v ls ls'.
      search_agent (\<lambda>c r n. (Inr (PyDict [(lit ''results'', PyList [PyDict [(lit ''title'', PyStr (lit ''A'')), (lit ''url'', PyStr (lit ''https://a'')),
         (lit ''content'', PyStr (lit ''short'')),
         (lit ''raw_content'', PyStr (lit ''the full text''))], PyDict [(lit ''title'', PyStr (lit ''B'')), (lit ''url'', PyStr (lit ''https://b'')),
         (lit ''content'', PyStr (lit ''summary'')), (lit ''raw_content'', PyNone)], PyDict [(lit ''title'', PyStr (lit ''C'')), (lit ''url'', PyStr (lit ''https://c''))]])]), n)) \<lparr>api_key = PyStr (lit ''tvly-key''), client = ()\<rparr> (PyStr (lit ''cats'')) (PyInt 5) \<lparr>stdin = [], trace = [], net = ()\<rparr> =
        (Inr v,
         \<lparr>stdin = [],
          trace =
            [Print (search_header (PyStr (lit ''cats''))),
             Call (SearchCall (PyStr (lit ''cats'')) (PyInt 5) (lit ''advanced'') True),
             Print [Lit (lit ''Found ''), Val (PyInt 3), Lit (lit '' results:'' @ [10])]] @
            map Print ls @
            map Print (search_agent_display (Suc 1) (PyStr (lit ''B'')) (PyStr (lit ''https://b''))
               (PyStr (lit ''N/A'')) (PyStr (lit ''summary'')) (length (lit ''summary''))
               [lit ''title'', lit ''url'', lit ''content'', lit ''raw_content'']) @
            map Print ls',
          net = ()\<rparr>))"
    by (simp add: lit_def)
  from search_agent_content_rule
      [of "(\<lambda>c r n. (Inr (PyDict [(lit ''results'', PyList [PyDict [(lit ''title'', PyStr (lit ''A'')), (lit ''url'', PyStr (lit ''https://a'')),
         (lit ''content'', PyStr (lit ''short'')),
         (lit ''raw_content'', PyStr (lit ''the full text''))], PyDict [(lit ''title'', PyStr (lit ''B'')), (lit ''url'', PyStr (lit ''https://b'')),
         (lit ''content'', PyStr (lit ''summary'')), (lit ''raw_content'', PyNone)], PyDict [(lit ''title'', PyStr (lit ''C'')), (lit ''url'', PyStr (lit ''https://c''))]])]), n))" "\<lparr>api_key = PyStr (lit ''tvly-key''), client = ()\<rparr>" "PyStr (lit ''cats'')" "PyInt 5" "\<lparr>stdin = [], trace = [], net = ()\<rparr>" "[(lit ''results'', PyList [PyDict [(lit ''title'', PyStr (lit ''A'')), (lit ''url'', PyStr (lit ''https://a'')),
         (lit ''content'', PyStr (lit ''short'')),
         (lit ''raw_content'', PyStr (lit ''the full text''))], PyDict [(lit ''title'', PyStr (lit ''B'')), (lit ''url'', PyStr (lit ''https://b'')),
         (lit ''content'', PyStr (lit ''summary'')), (lit ''raw_content'', PyNone)], PyDict [(lit ''title'', PyStr (lit ''C'')), (lit ''url'', PyStr (lit ''https://c''))]])]" "()"
          "[PyDict [(lit ''title'', PyStr (lit ''A'')), (lit ''url'', PyStr (lit ''https://a'')),
         (lit ''content'', PyStr (lit ''short'')),
         (lit ''raw_content'', PyStr (lit ''the full text''))], PyDict [(lit ''title'', PyStr (lit ''B'')), (lit ''url'', PyStr (lit ''https://b'')),
         (lit ''content'', PyStr (lit ''summary'')), (lit ''raw_content'', PyNone)]]" "[(lit ''title'', PyStr (lit ''C'')), (lit ''url'', PyStr (lit ''https://c''))]" "[]"
          "PyStr (lit ''C'')" "PyStr (lit ''https://c'')" "[]"] a b
  have 3: "(\<exists>v ls ls'.
      search_agent (\<lambda>c r n. (Inr (PyDict [(lit ''results'', PyList [PyDict [(lit ''title'', PyStr (lit ''A'')), (lit ''url'', PyStr (lit ''https://a'')),
         (lit ''content'', PyStr (lit ''short'')),
         (lit ''raw_content'', PyStr (lit ''the full text''))], PyDict [(lit ''title'', PyStr (lit ''B'')), (lit ''url'', PyStr (lit ''https://b'')),
         (lit ''content'', PyStr (lit ''summary'')), (lit ''raw_content'', PyNone)], PyDict [(lit ''title'', PyStr (lit ''C'')), (lit ''url'', PyStr (lit ''https://c''))]])]), n)) \<lparr>api_key = PyStr (lit ''tvly-key''), client = ()\<rparr> (PyStr (lit ''cats'')) (PyInt 5) \<lparr>stdin = [], trace = [], net = ()\<rparr> =
        (Inr v,
         \<lparr>stdin = [],
          trace =
            [Print (search_header (PyStr (lit ''cats''))),
             Call (SearchCall (PyStr (lit ''cats'')) (PyInt 5) (lit ''advanced'') True),
             Print [Lit (lit ''Found ''), Val (PyInt 3), Lit (lit '' results:'' @ [10])]] @
            map Print ls @
            map Print (search_agent_display (Suc (Suc 1)) (PyStr (lit ''C'')) (PyStr (lit ''https://c''))
               (PyStr (lit ''N/A'')) (PyStr []) (length [])
               [lit ''title'', lit ''url'']) @
            map Print ls',
          net = ()\<rparr>))"
    by (simp add: lit_def)
  from 1 2 3 show ?thesis by (intro conjI)
qed

text \<open>
  C3. For every URL string \<open>u\<close>, \<open>extract_agent\<close> on the string \<open>u\<close> and on the
  list \<open>[u]\<close> are the same statement, and the one request it sends to the remote
  client is \<open>extract(urls=[u])\<close>.
\<close>

theorem extract_agent_input_shape:
  "extract_agent remote self (PyStr u) = extract_agent remote self (PyList [PyStr u]) \<and>
   calls (trace (snd (extract_agent remote self (PyStr u) w))) =
     calls (trace w) @ [ExtractCall (PyList [PyStr u]) None]"
proof
  show eq: "extract_agent remote self (PyStr u) = extract_agent remote self (PyList [PyStr u])"
    by (simp add: extract_agent_def)
  from extract_agent_run [of remote self "[PyStr u]" w]
  show "calls (trace (snd (extract_agent remote self (PyStr u) w))) =
     calls (trace w) @ [ExtractCall (PyList [PyStr u]) None]"
    unfolding eq by (auto simp: calls_append calls_Print)
qed

text \<open>
  C4. For every URL, \<open>crawl_agent\<close> sends the one request
  \<open>extract(urls=[url], include_raw_content=True)\<close>, whatever \<open>max_depth\<close> is: the
  value returned, the lines printed after the call and the state of the network are
  the same for all values of \<open>max_depth\<close>, which shows in the header line only.
\<close>

theorem crawl_agent_ignores_max_depth:
  "\<exists>v ls n'. \<forall>max_depth.
     crawl_agent remote self url max_depth w =
       (v, w\<lparr>trace := trace w @ Print (crawl_header url max_depth) #
               Call (ExtractCall (PyList [url]) (Some True)) # map Print ls,
             net := n'\<rparr>)"
proof -
  from crawl_agent_frame [of remote self url w]
  obtain v ls where f: "\<And>t d. crawl_agent remote self url d (w\<lparr>trace := t\<rparr>) =
     (Inr v, w\<lparr>trace := t @ Print (crawl_header url d) #
        Call (ExtractCall (PyList [url]) (Some True)) # map Print ls,
        net := snd (remote (client self) (ExtractCall (PyList [url]) (Some True)) (net w))\<rparr>)"
    by blast
  have "\<forall>d. crawl_agent remote self url d w =
     (Inr v, w\<lparr>trace := trace w @ Print (crawl_header url d) #
        Call (ExtractCall (PyList [url]) (Some True)) # map Print ls,
        net := snd (remote (client self) (ExtractCall (PyList [url]) (Some True)) (net w))\<rparr>)"
    using f [of _ "trace w"] by simp
  then show ?thesis by blast
qed

text \<open>
  C5. With a non-empty credential string as the argument, or with none (or the empty
  string) as the argument and a non-empty one in the environment variable, the
  constructor builds the instance with that credential, given that the client's own
  constructor returns a client for it; when the argument is \<open>None\<close> or empty and the
  variable is unset or empty, it raises \<open>ValueError\<close> with the configuration message.
\<close>

theorem init_credential:
  "(k \<noteq> [] \<and> tavily_client (PyStr k) = Inr c \<longrightarrow>
      init tavily_client environ (PyStr k) = Inr \<lparr>api_key = PyStr k, client = c\<rparr>) \<and>
   ((key = PyNone \<or> key = PyStr []) \<and> environ (lit ''TAVILY_API_KEY'') = Some k \<and> k \<noteq> [] \<and>
    tavily_client (PyStr k) = Inr c \<longrightarrow>
      init tavily_client environ key = Inr \<lparr>api_key = PyStr k, client = c\<rparr>) \<and>
   ((key = PyNone \<or> key = PyStr []) \<and>
    (environ (lit ''TAVILY_API_KEY'') = None \<or> environ (lit ''TAVILY_API_KEY'') = Some []) \<longrightarrow>
      init tavily_client environ key =
        Inl (ValueError (lit ''Please provide TAVILY_API_KEY environment variable '' @
                         lit ''or pass it to the constructor'')))"
  by (auto simp: init_def environ_get_def)

text \<open>A credential from the argument, one from the environment, and none at all.\<close>

theorem init_credential_witness:
  "init (\<lambda>k. Inr k) (\<lambda>name. None) (PyStr (lit ''tvly-arg'')) =
     Inr \<lparr>api_key = PyStr (lit ''tvly-arg''), client = PyStr (lit ''tvly-arg'')\<rparr> \<and>
   init (\<lambda>k. Inr k)
     (\<lambda>name. if name = lit ''TAVILY_API_KEY'' then Some (lit ''tvly-env'') else None) PyNone =
     Inr \<lparr>api_key = PyStr (lit ''tvly-env''), client = PyStr (lit ''tvly-env'')\<rparr> \<and>
   init (\<lambda>k. Inr k :: pyexc + pyval) (\<lambda>name. Some []) (PyStr []) =
     Inl (ValueError (lit ''Please provide TAVILY_API_KEY environment variable '' @
                      lit ''or pass it to the constructor''))"
  using init_credential [of "lit ''tvly-arg''" "\<lambda>k. Inr k" "PyStr (lit ''tvly-arg'')" "\<lambda>name. None"]
    init_credential [of "lit ''tvly-env''" "\<lambda>k. Inr k" "PyStr (lit ''tvly-env'')"
      "\<lambda>name. if name = lit ''TAVILY_API_KEY'' then Some (lit ''tvly-env'') else None" PyNone]
    init_credential [of _ "\<lambda>k. Inr k :: pyexc + pyval" _ "\<lambda>name. Some []" "PyStr []"]
  by (simp add: lit_def)

text \<open>
  C6. The specification takes the title of a search result to be optional.
  \<open>search_agent\<close> reads it with \<open>result['title']\<close> (line 119), unlike the score
  on line 123 and the title in \<open>extract_agent\<close> and \<open>crawl_agent\<close>, which use
  \<open>get\<close> with the placeholder \<open>N/A\<close>. On a response whose only result has a URL and
  a content but no title, the search prints the three lines that open the record, then
  the failure message of the \<open>KeyError\<close>, and returns \<open>None\<close>: the record is not
  shown.
\<close>

theorem search_agent_missing_title:
  "search_agent
     (\<lambda>c r n. (Inr (PyDict [(lit ''results'',
        PyList [PyDict [(lit ''url'', PyStr (lit ''https://a'')),
                        (lit ''content'', PyStr (lit ''text''))]])]), n))
     \<lparr>api_key = PyStr (lit ''tvly-key''), client = ()\<rparr> (PyStr (lit ''cats'')) (PyInt 5)
     \<lparr>stdin = [], trace = [], net = ()\<rparr> =
   (Inr PyNone,
    \<lparr>stdin = [],
     trace =
       [Print (search_header (PyStr (lit ''cats''))),
        Call (SearchCall (PyStr (lit ''cats'')) (PyInt 5) (lit ''advanced'') True),
        Print [Lit (lit ''Found ''), Val (PyInt 1), Lit (lit '' results:'' @ [10])],
        Print [Lit [10], Val (PyStr (py_repeat (lit ''='') 70))],
        Print [Lit (lit ''Result #''), Val (PyInt 1)],
        Print [Val (PyStr (py_repeat (lit ''='') 70))],
        Print [Lit (10060 # lit '' Error in search: ''),
               ExcStr (KeyError (PyStr (lit ''title'')))]],
     net = ()\<rparr>)"
  by (simp add: search_agent_def search_header_def search_agent_result_def thn_print try_call
        thn_lift_Inr thn_def lift_def ret_def try_except_def py_print_def call_def lit_def)

text \<open>
  C7. On the input lines \<open>2\<close>, \<open>https://x.com, https://y.com\<close>, the empty line and
  \<open>4\<close>, whatever the remote client answers, the loop ends normally with all input
  read; its one remote request is \<open>extract\<close> on the list of the two trimmed URLs, and
  the last things it does are to read the \<open>4\<close> at the menu prompt and to say goodbye.
\<close>

theorem shell_extract_scenario:
  "\<exists>w'. main_loop remote agents
          (w\<lparr>stdin := [lit ''2'', lit ''https://x.com, https://y.com'', [], lit ''4'']\<rparr>) =
          (Inr (), w') \<and>
        stdin w' = [] \<and>
        calls (trace w') = calls (trace w) @
          [ExtractCall (PyList [PyStr (lit ''https://x.com''), PyStr (lit ''https://y.com'')])
             None] \<and>
        (\<exists>es. trace w' = es @
           [Prompt (10 # lit ''Enter your choice (1-4): ''), Read (lit ''4''),
            Print [Lit (10 # 128075 # lit '' Goodbye!'')]])"
proof -
  let ?w0 = "w\<lparr>stdin := [lit ''2'', lit ''https://x.com, https://y.com'', [], lit ''4'']\<rparr>"
  have "py_strip (lit ''https://x.com, https://y.com'') \<noteq> []"
    by (simp add: strip_urls_xy) (simp add: lit_def)
  from body_extract_calls [of ?w0 "lit ''2''" "lit ''https://x.com, https://y.com''"
      "[[], lit ''4'']" remote agents, OF _ strip_choice_2 this]
  obtain w1 where b1: "main_loop_body remote agents ?w0 = (Inr Continue, w1)"
    and s1: "stdin w1 = [lit ''4'']"
    and c1: "calls (trace w1) = calls (trace w) @
          [ExtractCall (PyList [PyStr (lit ''https://x.com''), PyStr (lit ''https://y.com'')])
             None]"
    by (auto simp: strip_urls_xy split_urls_xy)
  let ?w2 = "w1\<lparr>stdin := [], trace := trace w1 @ map Print menu_lines @
               [Prompt (10 # lit ''Enter your choice (1-4): ''), Read (lit ''4''),
                Print [Lit (10 # 128075 # lit '' Goodbye!'')]]\<rparr>"
  from s1 have b2: "main_loop_body remote agents w1 = (Inr Break, ?w2)"
    by (simp add: body_break strip_choice_4)
  have "main_loop remote agents ?w0 = main_loop remote agents w1"
    using b1 by (simp add: main_loop.simps [of remote agents ?w0])
  also have "\<dots> = (Inr (), ?w2)"
    using b2 by (simp add: main_loop.simps [of remote agents w1])
  finally have "main_loop remote agents ?w0 = (Inr (), ?w2)" .
  moreover have "stdin ?w2 = []" by simp
  moreover have "calls (trace ?w2) = calls (trace w) @
          [ExtractCall (PyList [PyStr (lit ''https://x.com''), PyStr (lit ''https://y.com'')])
             None]"
    using c1 by (simp add: calls_append calls_Print)
  moreover have "\<exists>es. trace ?w2 = es @
           [Prompt (10 # lit ''Enter your choice (1-4): ''), Read (lit ''4''),
            Print [Lit (10 # 128075 # lit '' Goodbye!'')]]"
    by (rule exI [of _ "trace w1 @ map Print menu_lines"]) simp
  ultimately show ?thesis by blast
qed

text \<open>
  C8. A pass of the loop breaks exactly when the line read at the menu prompt trims to
  \<open>4\<close>. A pass that continues has read the acknowledgment line last, and the loop goes
  on from the world it leaves, with the menu. The loop returns only after a line trimming
  to \<open>4\<close> was read at the menu prompt, followed by the goodbye. The only other way a
  pass or the loop ends is the \<open>EOFError\<close> of \<open>input\<close> when the input has run out.
\<close>

theorem shell_leaves_only_on_choice_4:
  "(fst (main_loop_body remote agents w) = Inr Break \<longleftrightarrow>
      (\<exists>l ls. stdin w = l # ls \<and> py_strip l = lit ''4'')) \<and>
   (main_loop_body remote agents w = (Inr Continue, w1) \<longrightarrow>
      (\<exists>es a. trace w1 = es @ [Prompt (10 # lit ''Press Enter to continue...''), Read a]) \<and>
      main_loop remote agents w = main_loop remote agents w1) \<and>
   (main_loop_body remote agents w = (Inl e, w1) \<longrightarrow> e = EOFError \<and> stdin w1 = []) \<and>
   (main_loop remote agents w = (Inr (), w2) \<longrightarrow>
      (\<exists>es l. trace w2 = es @
         [Prompt (10 # lit ''Enter your choice (1-4): ''), Read l,
          Print [Lit (10 # 128075 # lit '' Goodbye!'')]] \<and>
         py_strip l = lit ''4'')) \<and>
   (main_loop remote agents w = (Inl e, w2) \<longrightarrow> e = EOFError \<and> stdin w2 = [])"
proof (intro conjI impI)
  show "fst (main_loop_body remote agents w) = Inr Break \<longleftrightarrow>
      (\<exists>l ls. stdin w = l # ls \<and> py_strip l = lit ''4'')"
  proof
    assume "fst (main_loop_body remote agents w) = Inr Break"
    then have "main_loop_body remote agents w = (Inr Break, snd (main_loop_body remote agents w))"
      by (simp add: prod_eq_iff)
    then show "\<exists>l ls. stdin w = l # ls \<and> py_strip l = lit ''4''"
      unfolding body_break by blast
  next
    assume "\<exists>l ls. stdin w = l # ls \<and> py_strip l = lit ''4''"
    then obtain l ls where "stdin w = l # ls" "py_strip l = lit ''4''" by blast
    then have "main_loop_body remote agents w =
       (Inr Break, w\<lparr>stdin := ls, trace := trace w @ map Print menu_lines @
               [Prompt (10 # lit ''Enter your choice (1-4): ''), Read l,
                Print [Lit (10 # 128075 # lit '' Goodbye!'')]]\<rparr>)"
      by (simp add: body_break)
    then show "fst (main_loop_body remote agents w) = Inr Break" by simp
  qed
next
  assume "main_loop_body remote agents w = (Inr Continue, w1)"
  then show "\<exists>es a. trace w1 = es @ [Prompt (10 # lit ''Press Enter to continue...''), Read a]"
    by (rule body_continue)
next
  assume "main_loop_body remote agents w = (Inr Continue, w1)"
  then show "main_loop remote agents w = main_loop remote agents w1"
    by (simp add: main_loop.simps [of remote agents w])
next
  assume "main_loop_body remote agents w = (Inl e, w1)"
  then show "e = EOFError" "stdin w1 = []"
    using body_raise by blast+
next
  assume "main_loop remote agents w = (Inr (), w2)"
  then show "\<exists>es l. trace w2 = es @
         [Prompt (10 # lit ''Enter your choice (1-4): ''), Read l,
          Print [Lit (10 # 128075 # lit '' Goodbye!'')]] \<and>
         py_strip l = lit ''4''"
    by (rule main_loop_returns)
next
  assume "main_loop remote agents w = (Inl e, w2)"
  then show "e = EOFError" "stdin w2 = []"
    using main_loop_raises by blast+
qed

text \<open>
  An invalid choice with its acknowledgment, the choice \<open>4\<close>, and no input at all.
\<close>

theorem shell_leaves_only_on_choice_4_witness:
  "main_loop_body (\<lambda>c r n. (Inr (PyDict []), n)) \<lparr>api_key = PyStr (lit ''tvly-key''), client = ()\<rparr> \<lparr>stdin = [lit ''9'', []], trace = [], net = ()\<rparr> =
     (Inr Continue, \<lparr>stdin = [],
         trace = map Print menu_lines @
           [Prompt (10 # lit ''Enter your choice (1-4): ''), Read (lit ''9''),
            Print [Lit (10 # 10060 # lit '' Invalid choice. Please select 1-4.'')],
            Prompt (10 # lit ''Press Enter to continue...''), Read []],
         net = ()\<rparr>) \<and>
   main_loop (\<lambda>c r n. (Inr (PyDict []), n)) \<lparr>api_key = PyStr (lit ''tvly-key''), client = ()\<rparr> \<lparr>stdin = [lit ''9'', []], trace = [], net = ()\<rparr> =
     main_loop (\<lambda>c r n. (Inr (PyDict []), n)) \<lparr>api_key = PyStr (lit ''tvly-key''), client = ()\<rparr> \<lparr>stdin = [],
         trace = map Print menu_lines @
           [Prompt (10 # lit ''Enter your choice (1-4): ''), Read (lit ''9''),
            Print [Lit (10 # 10060 # lit '' Invalid choice. Please select 1-4.'')],
            Prompt (10 # lit ''Press Enter to continue...''), Read []],
         net = ()\<rparr> \<and>
   main_loop_body (\<lambda>c r n. (Inr (PyDict []), n)) \<lparr>api_key = PyStr (lit ''tvly-key''), client = ()\<rparr> \<lparr>stdin = [], trace = [], net = ()\<rparr> =
     (Inl EOFError, \<lparr>stdin = [],
         trace = map Print menu_lines @ [Prompt (10 # lit ''Enter your choice (1-4): '')],
         net = ()\<rparr>) \<and>
   main_loop (\<lambda>c r n. (Inr (PyDict []), n)) \<lparr>api_key = PyStr (lit ''tvly-key''), client = ()\<rparr> \<lparr>stdin = [], trace = [], net = ()\<rparr> =
     (Inl EOFError, \<lparr>stdin = [],
         trace = map Print menu_lines @ [Prompt (10 # lit ''Enter your choice (1-4): '')],
         net = ()\<rparr>) \<and>
   fst (main_loop_body (\<lambda>c r n. (Inr (PyDict []), n)) \<lparr>api_key = PyStr (lit ''tvly-key''), client = ()\<rparr> \<lparr>stdin = [lit ''4''], trace = [], net = ()\<rparr>) = Inr Break \<and>
   main_loop (\<lambda>c r n. (Inr (PyDict []), n)) \<lparr>api_key = PyStr (lit ''tvly-key''), client = ()\<rparr> \<lparr>stdin = [lit ''4''], trace = [], net = ()\<rparr> =
     (Inr (), \<lparr>stdin = [],
         trace = map Print menu_lines @
           [Prompt (10 # lit ''Enter your choice (1-4): ''), Read (lit ''4''),
            Print [Lit (10 # 128075 # lit '' Goodbye!'')]],
         net = ()\<rparr>) \<and>
   (\<exists>es l. trace \<lparr>stdin = [],
         trace = map Print menu_lines @
           [Prompt (10 # lit ''Enter your choice (1-4): ''), Read (lit ''4''),
            Print [Lit (10 # 128075 # lit '' Goodbye!'')]],
         net = ()\<rparr> = es @
      [Prompt (10 # lit ''Enter your choice (1-4): ''), Read l,
       Print [Lit (10 # 128075 # lit '' Goodbye!'')]] \<and> py_strip l = lit ''4'') \<and>
   stdin \<lparr>stdin = [],
         trace = map Print menu_lines @ [Prompt (10 # lit ''Enter your choice (1-4): '')],
         net = ()\<rparr> = []"
proof -
  have s9: "py_strip (lit ''9'') = lit ''9''"
    by (simp add: py_strip_def lit_def isspace_def)
  have n9: "lit ''9'' \<noteq> lit ''1''" "lit ''9'' \<noteq> lit ''2''" "lit ''9'' \<noteq> lit ''3''"
    "lit ''9'' \<noteq> lit ''4''"
    by (simp_all add: lit_def)
  have b9: "main_loop_body (\<lambda>c r n. (Inr (PyDict []), n)) \<lparr>api_key = PyStr (lit ''tvly-key''), client = ()\<rparr> \<lparr>stdin = [lit ''9'', []], trace = [], net = ()\<rparr> =
      (Inr Continue, \<lparr>stdin = [],
         trace = map Print menu_lines @
           [Prompt (10 # lit ''Enter your choice (1-4): ''), Read (lit ''9''),
            Print [Lit (10 # 10060 # lit '' Invalid choice. Please select 1-4.'')],
            Prompt (10 # lit ''Press Enter to continue...''), Read []],
         net = ()\<rparr>)"
    by (simp add: main_loop_body_unfold s9 n9 dispatch_def thn_print ret_def)
  have b0: "main_loop_body (\<lambda>c r n. (Inr (PyDict []), n)) \<lparr>api_key = PyStr (lit ''tvly-key''), client = ()\<rparr> \<lparr>stdin = [], trace = [], net = ()\<rparr> =
      (Inl EOFError, \<lparr>stdin = [],
         trace = map Print menu_lines @ [Prompt (10 # lit ''Enter your choice (1-4): '')],
         net = ()\<rparr>)"
    by (simp add: main_loop_body_unfold)
  have b4: "main_loop_body (\<lambda>c r n. (Inr (PyDict []), n)) \<lparr>api_key = PyStr (lit ''tvly-key''), client = ()\<rparr> \<lparr>stdin = [lit ''4''], trace = [], net = ()\<rparr> =
      (Inr Break, \<lparr>stdin = [],
         trace = map Print menu_lines @
           [Prompt (10 # lit ''Enter your choice (1-4): ''), Read (lit ''4''),
            Print [Lit (10 # 128075 # lit '' Goodbye!'')]],
         net = ()\<rparr>)"
    by (simp add: body_break strip_choice_4)
  have m4: "main_loop (\<lambda>c r n. (Inr (PyDict []), n)) \<lparr>api_key = PyStr (lit ''tvly-key''), client = ()\<rparr> \<lparr>stdin = [lit ''4''], trace = [], net = ()\<rparr> =
      (Inr (), \<lparr>stdin = [],
         trace = map Print menu_lines @
           [Prompt (10 # lit ''Enter your choice (1-4): ''), Read (lit ''4''),
            Print [Lit (10 # 128075 # lit '' Goodbye!'')]],
         net = ()\<rparr>)"
    using b4 by (simp add: main_loop.simps [of "(\<lambda>c r n. (Inr (PyDict []), n))" "\<lparr>api_key = PyStr (lit ''tvly-key''), client = ()\<rparr>" "\<lparr>stdin = [lit ''4''], trace = [], net = ()\<rparr>"])
  have m0: "main_loop (\<lambda>c r n. (Inr (PyDict []), n)) \<lparr>api_key = PyStr (lit ''tvly-key''), client = ()\<rparr> \<lparr>stdin = [], trace = [], net = ()\<rparr> =
      (Inl EOFError, \<lparr>stdin = [],
         trace = map Print menu_lines @ [Prompt (10 # lit ''Enter your choice (1-4): '')],
         net = ()\<rparr>)"
    using b0 by (simp add: main_loop.simps [of "(\<lambda>c r n. (Inr (PyDict []), n))" "\<lparr>api_key = PyStr (lit ''tvly-key''), client = ()\<rparr>" "\<lparr>stdin = [], trace = [], net = ()\<rparr>"])
  from shell_leaves_only_on_choice_4 [of "(\<lambda>c r n. (Inr (PyDict []), n))" "\<lparr>api_key = PyStr (lit ''tvly-key''), client = ()\<rparr>" "\<lparr>stdin = [lit ''4''], trace = [], net = ()\<rparr>" _ _ "\<lparr>stdin = [],
         trace = map Print menu_lines @
           [Prompt (10 # lit ''Enter your choice (1-4): ''), Read (lit ''4''),
            Print [Lit (10 # 128075 # lit '' Goodbye!'')]],
         net = ()\<rparr>"]
  have c4: "fst (main_loop_body (\<lambda>c r n. (Inr (PyDict []), n)) \<lparr>api_key = PyStr (lit ''tvly-key''), client = ()\<rparr> \<lparr>stdin = [lit ''4''], trace = [], net = ()\<rparr>) = Inr Break"
    by (simp add: strip_choice_4)
  from shell_leaves_only_on_choice_4 [of "(\<lambda>c r n. (Inr (PyDict []), n))" "\<lparr>api_key = PyStr (lit ''tvly-key''), client = ()\<rparr>" "\<lparr>stdin = [lit ''9'', []], trace = [], net = ()\<rparr>" "\<lparr>stdin = [],
         trace = map Print menu_lines @
           [Prompt (10 # lit ''Enter your choice (1-4): ''), Read (lit ''9''),
            Print [Lit (10 # 10060 # lit '' Invalid choice. Please select 1-4.'')],
            Prompt (10 # lit ''Press Enter to continue...''), Read []],
         net = ()\<rparr>"] b9
  have l9: "main_loop (\<lambda>c r n. (Inr (PyDict []), n)) \<lparr>api_key = PyStr (lit ''tvly-key''), client = ()\<rparr> \<lparr>stdin = [lit ''9'', []], trace = [], net = ()\<rparr> =
      main_loop (\<lambda>c r n. (Inr (PyDict []), n)) \<lparr>api_key = PyStr (lit ''tvly-key''), client = ()\<rparr> \<lparr>stdin = [],
         trace = map Print menu_lines @
           [Prompt (10 # lit ''Enter your choice (1-4): ''), Read (lit ''9''),
            Print [Lit (10 # 10060 # lit '' Invalid choice. Please select 1-4.'')],
            Prompt (10 # lit ''Press Enter to continue...''), Read []],
         net = ()\<rparr>"
    by simp
  from shell_leaves_only_on_choice_4 [of "(\<lambda>c r n. (Inr (PyDict []), n))" "\<lparr>api_key = PyStr (lit ''tvly-key''), client = ()\<rparr>" "\<lparr>stdin = [lit ''4''], trace = [], net = ()\<rparr>" _ _ "\<lparr>stdin = [],
         trace = map Print menu_lines @
           [Prompt (10 # lit ''Enter your choice (1-4): ''), Read (lit ''4''),
            Print [Lit (10 # 128075 # lit '' Goodbye!'')]],
         net = ()\<rparr>"] m4
  have r4: "\<exists>es l. trace \<lparr>stdin = [],
         trace = map Print menu_lines @
           [Prompt (10 # lit ''Enter your choice (1-4): ''), Read (lit ''4''),
            Print [Lit (10 # 128075 # lit '' Goodbye!'')]],
         net = ()\<rparr> = es @
      [Prompt (10 # lit ''Enter your choice (1-4): ''), Read l,
       Print [Lit (10 # 128075 # lit '' Goodbye!'')]] \<and> py_strip l = lit ''4''"
    by simp
  from shell_leaves_only_on_choice_4 [of "(\<lambda>c r n. (Inr (PyDict []), n))" "\<lparr>api_key = PyStr (lit ''tvly-key''), client = ()\<rparr>" "\<lparr>stdin = [], trace = [], net = ()\<rparr>" "\<lparr>stdin = [],
         trace = map Print menu_lines @ [Prompt (10 # lit ''Enter your choice (1-4): '')],
         net = ()\<rparr>" EOFError "\<lparr>stdin = [],
         trace = map Print menu_lines @ [Prompt (10 # lit ''Enter your choice (1-4): '')],
         net = ()\<rparr>"] b0 m0
  have r0: "stdin \<lparr>stdin = [],
         trace = map Print menu_lines @ [Prompt (10 # lit ''Enter your choice (1-4): '')],
         net = ()\<rparr> = []"
    by simp
  from b9 l9 b0 m0 c4 m4 r4 r0 show ?thesis by blast
qed



text \<open>
  C10. On choice \<open>2\<close>, when the line of URLs is not blank, the shell passes to
  \<open>extract_agent\<close> the list of all the trimmed pieces between the commas of the
  trimmed line: the list has one element more than the line has commas, empty pieces
  included.
\<close>

theorem shell_extract_passes_every_piece:
  "(stdin w = c # l # rest \<and> py_strip c = lit ''2'' \<and> py_strip l \<noteq> [] \<longrightarrow>
      calls (trace (snd (main_loop_body remote agents w))) =
        calls (trace w) @
        [ExtractCall (PyList (map PyStr (map py_strip (py_split 44 (py_strip l))))) None]) \<and>
   length (map py_strip (py_split 44 s)) = Suc (length (filter (\<lambda>x. x = 44) s))"
proof (intro conjI impI)
  assume "stdin w = c # l # rest \<and> py_strip c = lit ''2'' \<and> py_strip l \<noteq> []"
  then have "stdin w = c # l # rest" "py_strip c = lit ''2''" "py_strip l \<noteq> []"
    by simp_all
  from body_extract_calls [OF this, of remote agents]
  show "calls (trace (snd (main_loop_body remote agents w))) =
        calls (trace w) @
        [ExtractCall (PyList (map PyStr (map py_strip (py_split 44 (py_strip l))))) None]"
    by auto
next
  show "length (map py_strip (py_split 44 s)) = Suc (length (filter (\<lambda>x. x = 44) s))"
    by (simp add: length_py_split)
qed

text \<open>The lines \<open>a,,b\<close> and \<open>,\<close>: the empty strings are passed on.\<close>

theorem shell_extract_passes_every_piece_witness:
  "calls (trace (snd (main_loop_body (\<lambda>c r n. (Inr (PyDict []), n))
       \<lparr>api_key = PyStr (lit ''tvly-key''), client = ()\<rparr>
       \<lparr>stdin = [lit ''2'', lit ''a,,b''], trace = [], net = ()\<rparr>))) =
     [ExtractCall (PyList [PyStr (lit ''a''), PyStr [], PyStr (lit ''b'')]) None] \<and>
   calls (trace (snd (main_loop_body (\<lambda>c r n. (Inr (PyDict []), n))
       \<lparr>api_key = PyStr (lit ''tvly-key''), client = ()\<rparr>
       \<lparr>stdin = [lit ''2'', lit '',''], trace = [], net = ()\<rparr>))) =
     [ExtractCall (PyList [PyStr [], PyStr []]) None]"
  using shell_extract_passes_every_piece
      [of "\<lparr>stdin = [lit ''2'', lit ''a,,b''], trace = [], net = ()\<rparr>" "lit ''2''" "lit ''a,,b''"
          "[]" "\<lambda>c r n. (Inr (PyDict []), n)"
          "\<lparr>api_key = PyStr (lit ''tvly-key''), client = ()\<rparr>"]
    shell_extract_passes_every_piece
      [of "\<lparr>stdin = [lit ''2'', lit '',''], trace = [], net = ()\<rparr>" "lit ''2''" "lit '',''"
          "[]" "\<lambda>c r n. (Inr (PyDict []), n)"
          "\<lparr>api_key = PyStr (lit ''tvly-key''), client = ()\<rparr>"]
  by (simp add: py_strip_def lit_def isspace_def)

end
